theory Spec2Isabelle
  imports Complex_Main "HOL-Library.Word"
begin

section \<open>JavaScript values\<close>

text \<open>
  A JavaScript string is a sequence of UTF-16 code units; \<open>length\<close>, \<open>slice\<close> and
  \<open>trim\<close> all count code units. ASCII text is written with \<open>str\<close>; code units above
  ASCII (the emoji of the greeting and of the error texts) are written as numbers.
\<close>

type_synonym jsstring = "16 word list"

definition str :: "string \<Rightarrow> jsstring" where
  "str s = map of_char s"

text \<open>
  The values a JSON body or a JavaScript variable of the program can hold. Numbers are
  modelled by rationals: the program only tests them for truthiness and copies them.
  An object is its list of own properties, the first binding of a key being its value.
\<close>

datatype jsval =
    JUndefined
  | JNull
  | JBool bool
  | JNum rat
  | JStr jsstring
  | JArr "jsval list"
  | JObj "(jsstring \<times> jsval) list"

text \<open>
  What the program can throw: a \<open>TypeError\<close> raised by the engine (reading a property
  of \<open>null\<close> or \<open>undefined\<close>, calling something that is not a function), or an error object
  thrown by a library, of which the handlers read \<open>err.response.data.error.message\<close>
  and \<open>err.message\<close>.
\<close>

datatype js_error =
    TypeError
  | Thrown jsval jsval

fun truthy :: "jsval \<Rightarrow> bool" where
  "truthy JUndefined = False"
| "truthy JNull = False"
| "truthy (JBool b) = b"
| "truthy (JNum n) = (n \<noteq> 0)"
| "truthy (JStr s) = (s \<noteq> [])"
| "truthy (JArr xs) = True"
| "truthy (JObj kvs) = True"

text \<open>\<open>a || b\<close> on values that are already computed.\<close>

definition js_or :: "jsval \<Rightarrow> jsval \<Rightarrow> jsval" where
  "js_or a b = (if truthy a then a else b)"

text \<open>\<open>a ?? b\<close>.\<close>

definition js_nullish :: "jsval \<Rightarrow> jsval \<Rightarrow> jsval" where
  "js_nullish a b = (if a = JUndefined \<or> a = JNull then b else a)"

text \<open>
  \<open>v.k\<close> for the property names the program reads (none of them is a built-in
  property of strings, numbers, booleans, arrays or plain objects): a \<open>TypeError\<close> on
  \<open>null\<close> and \<open>undefined\<close>, the own property of an object, \<open>undefined\<close> otherwise.
\<close>

fun get_prop :: "jsval \<Rightarrow> jsstring \<Rightarrow> js_error + jsval" where
  "get_prop JUndefined k = Inl TypeError"
| "get_prop JNull k = Inl TypeError"
| "get_prop (JObj kvs) k = Inr (case map_of kvs k of Some v \<Rightarrow> v | None \<Rightarrow> JUndefined)"
| "get_prop v k = Inr JUndefined"

text \<open>\<open>v?.k\<close>: \<open>undefined\<close> on \<open>null\<close> and \<open>undefined\<close>, never an error.\<close>

fun opt_prop :: "jsval \<Rightarrow> jsstring \<Rightarrow> jsval" where
  "opt_prop (JObj kvs) k = (case map_of kvs k of Some v \<Rightarrow> v | None \<Rightarrow> JUndefined)"
| "opt_prop v k = JUndefined"

text \<open>
  \<open>v[0]\<close>: the first element of an array, the first code unit of a string, the own
  property \<open>"0"\<close> of an object.
\<close>

fun get_index0 :: "jsval \<Rightarrow> js_error + jsval" where
  "get_index0 JUndefined = Inl TypeError"
| "get_index0 JNull = Inl TypeError"
| "get_index0 (JArr xs) = Inr (case xs of [] \<Rightarrow> JUndefined | x # _ \<Rightarrow> x)"
| "get_index0 (JStr s) = Inr (case s of [] \<Rightarrow> JUndefined | c # _ \<Rightarrow> JStr [c])"
| "get_index0 (JObj kvs) = Inr (case map_of kvs (str ''0'') of Some v \<Rightarrow> v | None \<Rightarrow> JUndefined)"
| "get_index0 v = Inr JUndefined"

text \<open>\<open>v?.[0]\<close>.\<close>

definition opt_index0 :: "jsval \<Rightarrow> jsval" where
  "opt_index0 v = (case get_index0 v of Inl e \<Rightarrow> JUndefined | Inr x \<Rightarrow> x)"

text \<open>
  White space as \<open>String.prototype.trim\<close> and the regular expression class \<open>\s\<close> define
  it: the WhiteSpace and LineTerminator code points of ECMAScript.
\<close>

definition isWhiteSpace :: "16 word \<Rightarrow> bool" where
  "isWhiteSpace c \<longleftrightarrow>
     c = 0x09 \<or> c = 0x0A \<or> c = 0x0B \<or> c = 0x0C \<or> c = 0x0D \<or> c = 0x20 \<or> c = 0xA0 \<or>
     c = 0x1680 \<or> (0x2000 \<le> c \<and> c \<le> 0x200A) \<or> c = 0x2028 \<or> c = 0x2029 \<or>
     c = 0x202F \<or> c = 0x205F \<or> c = 0x3000 \<or> c = 0xFEFF"

definition trim :: "jsstring \<Rightarrow> jsstring" where
  "trim s = rev (dropWhile isWhiteSpace (rev (dropWhile isWhiteSpace s)))"

text \<open>\<open>v.trim()\<close> on a value: only a string has the method.\<close>

fun call_trim :: "jsval \<Rightarrow> js_error + jsstring" where
  "call_trim (JStr s) = Inr (trim s)"
| "call_trim v = Inl TypeError"

text \<open>\<open>s.replace(/\s+/g, " ")\<close>: every maximal run of white space becomes one space.\<close>

function replace_ws_runs :: "jsstring \<Rightarrow> jsstring" where
  "replace_ws_runs [] = []"
| "replace_ws_runs (c # cs) =
     (if isWhiteSpace c then 0x20 # replace_ws_runs (dropWhile isWhiteSpace cs)
      else c # replace_ws_runs cs)"
  by pat_completeness auto
termination
  by (relation "measure length") (auto simp: length_dropWhile_le less_Suc_eq_le)

text \<open>\<open>s.trimEnd()\<close>: the white space at the end removed.\<close>

definition trim_end :: "jsstring \<Rightarrow> jsstring" where
  "trim_end s = rev (dropWhile isWhiteSpace (rev s))"

definition startsWith :: "jsstring \<Rightarrow> jsstring \<Rightarrow> bool" where
  "startsWith s p = (take (length p) s = p)"

text \<open>\<open>xs.join(sep)\<close> on strings.\<close>

fun join :: "jsstring \<Rightarrow> jsstring list \<Rightarrow> jsstring" where
  "join sep [] = []"
| "join sep [x] = x"
| "join sep (x # y # ys) = x @ sep @ join sep (y # ys)"

text \<open>The results of fallible steps run in order: the first throw wins.\<close>

fun sequence_err :: "(js_error + 'a) list \<Rightarrow> js_error + 'a list" where
  "sequence_err [] = Inr []"
| "sequence_err (Inl e # rs) = Inl e"
| "sequence_err (Inr y # rs) =
     (case sequence_err rs of Inl e \<Rightarrow> Inl e | Inr ys \<Rightarrow> Inr (y # ys))"

definition map_err :: "('a \<Rightarrow> js_error + 'b) \<Rightarrow> 'a list \<Rightarrow> js_error + 'b list" where
  "map_err f xs = sequence_err (map f xs)"

text \<open>
  The conversion of a value to a string inside a template literal. The decimal form of a
  number is the parameter \<open>nf\<close>. An array joins its elements with commas, \<open>null\<close> and
  \<open>undefined\<close> elements being empty; an object parsed from JSON prints as
  \<open>[object Object]\<close> unless it has an own property \<open>toString\<close>, which is then not a
  function and makes the conversion throw.
\<close>

fun ToString :: "(rat \<Rightarrow> jsstring) \<Rightarrow> jsval \<Rightarrow> js_error + jsstring" where
  "ToString nf JUndefined = Inr (str ''undefined'')"
| "ToString nf JNull = Inr (str ''null'')"
| "ToString nf (JBool b) = Inr (if b then str ''true'' else str ''false'')"
| "ToString nf (JNum n) = Inr (nf n)"
| "ToString nf (JStr s) = Inr s"
| "ToString nf (JArr xs) =
     (case sequence_err
             (map (\<lambda>x. if x = JUndefined \<or> x = JNull then Inr [] else ToString nf x) xs) of
        Inl e \<Rightarrow> Inl e
      | Inr ss \<Rightarrow> Inr (join (str '','') ss))"
| "ToString nf (JObj kvs) =
     (if map_of kvs (str ''toString'') \<noteq> None then Inl TypeError
      else Inr (str ''[object Object]''))"

text \<open>Sequencing of steps that can throw.\<close>

definition bind_err :: "js_error + 'a \<Rightarrow> ('a \<Rightarrow> js_error + 'b) \<Rightarrow> js_error + 'b" where
  "bind_err m f = (case m of Inl e \<Rightarrow> Inl e | Inr x \<Rightarrow> f x)"

text \<open>\<open>Array.isArray(v) && v.length > 0\<close>.\<close>

fun nonempty_array :: "jsval \<Rightarrow> bool" where
  "nonempty_array (JArr xs) = (xs \<noteq> [])"
| "nonempty_array v = False"

fun array_elements :: "jsval \<Rightarrow> jsval list" where
  "array_elements (JArr xs) = xs"
| "array_elements v = []"

text \<open>
  What the receiver of \<open>JSON.stringify(v)\<close> parses back: a property whose value is
  \<open>undefined\<close> is left out of its object, an \<open>undefined\<close> element of an array becomes
  \<open>null\<close>, everything else is kept in place.
\<close>

fun json_wire :: "jsval \<Rightarrow> jsval" where
  "json_wire (JObj kvs) =
     JObj (filter (\<lambda>kv. snd kv \<noteq> JUndefined) (map (\<lambda>kv. (fst kv, json_wire (snd kv))) kvs))"
| "json_wire (JArr xs) = JArr (map (\<lambda>x. if x = JUndefined then JNull else json_wire x) xs)"
| "json_wire v = v"

text \<open>
  The values \<open>JSON.parse\<close> produces: no \<open>undefined\<close> anywhere, and no key twice in an
  object.
\<close>

fun is_json :: "jsval \<Rightarrow> bool" where
  "is_json JUndefined = False"
| "is_json (JArr xs) = list_all is_json xs"
| "is_json (JObj kvs) = (distinct (map fst kvs) \<and> list_all (\<lambda>kv. is_json (snd kv)) kvs)"
| "is_json v = True"

section \<open>The backend: \<open>server.js\<close>\<close>

subsection \<open>Requests, responses and the outside world\<close>

text \<open>
  A request as the route handlers read it: \<open>req.headers.authorization\<close> (a string or
  absent) and \<open>req.body\<close>, the parsed JSON body.
\<close>

record request =
  authorization :: "jsstring option"
  body :: jsval

text \<open>
  A response as the caller receives it: the status, and the body parsed from the JSON
  text that \<open>res.json\<close> sent.
\<close>

record response =
  status :: nat
  json_body :: jsval

text \<open>
  What \<open>fetch\<close> resolves to: \<open>ok\<close>, \<open>status\<close>, and the results of the body readers
  \<open>json()\<close>, \<open>text()\<close> and \<open>arrayBuffer()\<close>, each of which can throw.
\<close>

record fetch_response =
  ok :: bool
  http_status :: nat
  read_json :: "js_error + jsval"
  read_text :: "js_error + jsstring"
  read_arrayBuffer :: "js_error + 8 word list"

text \<open>
  The calls a handler makes to external services: the Gemini SDK (model, prompt), the
  chat-completion call of the Groq and DeepSeek clients (model, messages, max_tokens,
  temperature), and \<open>fetch\<close> (url, method, headers, the object serialised as body).
\<close>

datatype outbound =
    GeminiGenerateContent jsstring jsstring
  | GroqChatCompletionsCreate jsstring jsval nat rat
  | DeepseekChatCompletionsCreate jsstring jsval nat rat
  | Fetch jsstring jsstring "(jsstring \<times> jsstring) list" jsval

text \<open>
  Modelled from the spec: the user document of \<open>models/User.js\<close>, which is not among the
  sources. The data model gives it as \<open>{id, name, email (unique), passwordHash}\<close>; the
  handlers read \<open>_id\<close>, \<open>name\<close>, \<open>email\<close> and \<open>password\<close>, the stored hash.
\<close>

record user =
  user_id :: jsstring
  user_name :: jsstring
  user_email :: jsstring
  user_password :: jsstring

text \<open>
  Everything outside the handlers is a parameter: the environment variables, the libraries
  (\<open>jsonwebtoken\<close>, \<open>bcryptjs\<close>, the user collection, the provider SDKs, \<open>fetch\<close>) and the
  built-in functions whose tables are not part of the program. \<open>sdk\<close> answers the
  SDK calls (for Gemini with \<open>result.response.text()\<close>), \<open>fetch\<close> the HTTP calls.
\<close>

record env =
  WEATHER_API_KEY :: "jsstring option"
  HF_API_KEY :: "jsstring option"
  JWT_EXPIRES_IN :: "jsstring option"
  jwt_verify :: "jsstring \<Rightarrow> js_error + jsval"
  jwt_sign :: "jsval \<Rightarrow> jsstring \<Rightarrow> js_error + jsstring"
  User_findOne :: "jsval \<Rightarrow> js_error + user option"
  bcrypt_compare :: "jsval \<Rightarrow> jsstring \<Rightarrow> js_error + bool"
  sdk :: "outbound \<Rightarrow> js_error + jsval"
  fetch :: "outbound \<Rightarrow> js_error + fetch_response"
  encodeURIComponent :: "jsstring \<Rightarrow> js_error + jsstring"
  toUpperCase :: "jsstring \<Rightarrow> jsstring"
  NumberToString :: "rat \<Rightarrow> jsstring"
  JSON_stringify :: "jsval \<Rightarrow> jsval"
  base64 :: "8 word list \<Rightarrow> jsstring"
  TypeError_message :: jsstring

text \<open>An environment variable inside a template literal: \<open>undefined\<close> when unset.\<close>

definition env_text :: "jsstring option \<Rightarrow> jsstring" where
  "env_text v = (case v of None \<Rightarrow> str ''undefined'' | Some s \<Rightarrow> s)"

definition error_body :: "jsval \<Rightarrow> jsval" where
  "error_body m = JObj [(str ''error'', m)]"

text \<open>
  \<open>res.status(n).json(b)\<close>; \<open>res.json(b)\<close> alone has status 200. Express sends
  \<open>JSON.stringify(b)\<close>.
\<close>

definition reply :: "nat \<Rightarrow> jsval \<Rightarrow> response" where
  "reply n b = \<lparr>status = n, json_body = json_wire b\<rparr>"

subsection \<open>authMiddleware\<close>

text \<open>
  Either the response that ends the request (\<open>Inl\<close>) or the decoded token that
  \<open>next()\<close> passes on as \<open>req.user\<close> (\<open>Inr\<close>).
\<close>

definition authMiddleware :: "env \<Rightarrow> request \<Rightarrow> response + jsval" where
  "authMiddleware E req =
     (let authHeader = (case authorization req of None \<Rightarrow> [] | Some h \<Rightarrow> h);
          token = (if startsWith authHeader (str ''Bearer '') then Some (drop 7 authHeader)
                   else None)
      in case token of
           None \<Rightarrow> Inl (reply 401 (error_body (JStr (str ''No token, authorization denied''))))
         | Some t \<Rightarrow>
             if t = [] then
               Inl (reply 401 (error_body (JStr (str ''No token, authorization denied''))))
             else (case jwt_verify E t of
                     Inl err \<Rightarrow> Inl (reply 401 (error_body (JStr (str ''Token is not valid''))))
                   | Inr decoded \<Rightarrow> Inr decoded))"

subsection \<open>\<open>POST /api/auth/login\<close>\<close>

definition login_try :: "env \<Rightarrow> request \<Rightarrow> js_error + response" where
  "login_try E req =
     (case get_prop (body req) (str ''email'') of
        Inl e \<Rightarrow> Inl e
      | Inr email \<Rightarrow>
     (case get_prop (body req) (str ''password'') of
        Inl e \<Rightarrow> Inl e
      | Inr password \<Rightarrow>
     (case User_findOne E email of
        Inl e \<Rightarrow> Inl e
      | Inr None \<Rightarrow> Inr (reply 400 (error_body (JStr (str ''Invalid email or password''))))
      | Inr (Some u) \<Rightarrow>
     (case bcrypt_compare E password (user_password u) of
        Inl e \<Rightarrow> Inl e
      | Inr isMatch \<Rightarrow>
          if \<not> isMatch then
            Inr (reply 400 (error_body (JStr (str ''Invalid email or password''))))
          else
     (case jwt_sign E (JObj [(str ''id'', JStr (user_id u)), (str ''email'', JStr (user_email u))])
             (case JWT_EXPIRES_IN E of
                None \<Rightarrow> str ''7d''
              | Some d \<Rightarrow> if d = [] then str ''7d'' else d) of
        Inl e \<Rightarrow> Inl e
      | Inr token \<Rightarrow>
          Inr (reply 200
                 (JObj [(str ''user'',
                           JObj [(str ''id'', JStr (user_id u)),
                                 (str ''name'', JStr (user_name u)),
                                 (str ''email'', JStr (user_email u))]),
                        (str ''token'', JStr token)])))))))"

definition login :: "env \<Rightarrow> request \<Rightarrow> response" where
  "login E req =
     (case login_try E req of
        Inl err \<Rightarrow> reply 500 (error_body (JStr (str ''Server error'')))
      | Inr r \<Rightarrow> r)"

subsection \<open>\<open>POST /api/tools/weather\<close>\<close>

text \<open>The object \<open>result\<close> built from the upstream \<open>data\<close>.\<close>

definition weather_result :: "jsval \<Rightarrow> js_error + jsval" where
  "weather_result data =
     bind_err (get_prop data (str ''name'')) (\<lambda>name.
     bind_err (get_prop data (str ''sys'')) (\<lambda>sys.
     bind_err (get_prop data (str ''main'')) (\<lambda>main.
     bind_err (get_prop data (str ''weather'')) (\<lambda>weather.
       Inr (JObj
         [(str ''city'', name),
          (str ''country'', opt_prop sys (str ''country'')),
          (str ''temp'', opt_prop main (str ''temp'')),
          (str ''feels_like'', opt_prop main (str ''feels_like'')),
          (str ''humidity'', opt_prop main (str ''humidity'')),
          (str ''description'', opt_prop (opt_index0 weather) (str ''description'')),
          (str ''icon'', opt_prop (opt_index0 weather) (str ''icon'')),
          (str ''raw'', data)])))))"

definition weather_url :: "jsstring \<Rightarrow> jsstring \<Rightarrow> jsstring" where
  "weather_url q key =
     str ''https://api.openweathermap.org/data/2.5/weather?q='' @ q @
     str ''&units=metric&appid='' @ key"

text \<open>
  The body of the \<open>try\<close> block, with the list of external calls it made: what it
  returns, or what it throws.
\<close>

definition weather_try :: "env \<Rightarrow> request \<Rightarrow> (js_error + response) \<times> outbound list" where
  "weather_try E req =
     (case get_prop (body req) (str ''city'') of
        Inl e \<Rightarrow> (Inl e, [])
      | Inr city \<Rightarrow>
          if \<not> truthy city then (Inr (reply 400 (error_body (JStr (str ''City is required'')))), [])
          else
     (case call_trim city of
        Inl e \<Rightarrow> (Inl e, [])
      | Inr trimmed \<Rightarrow>
          if trimmed = [] then
            (Inr (reply 400 (error_body (JStr (str ''City is required'')))), [])
          else
     (case WEATHER_API_KEY E of
        None \<Rightarrow>
          (Inr (reply 500 (error_body (JStr (str ''WEATHER_API_KEY is not set in .env'')))), [])
      | Some key \<Rightarrow>
          if key = [] then
            (Inr (reply 500 (error_body (JStr (str ''WEATHER_API_KEY is not set in .env'')))), [])
          else
     (case encodeURIComponent E trimmed of
        Inl e \<Rightarrow> (Inl e, [])
      | Inr q \<Rightarrow>
          let call = Fetch (weather_url q key) (str ''GET'') [] JUndefined in
     (case fetch E call of
        Inl e \<Rightarrow> (Inl e, [call])
      | Inr response \<Rightarrow>
     (case read_json response of
        Inl e \<Rightarrow> (Inl e, [call])
      | Inr data \<Rightarrow>
          if \<not> ok response then
            (bind_err (get_prop data (str ''message'')) (\<lambda>m.
               Inr (reply (http_status response)
                      (error_body (js_or m (JStr (str ''Weather API error'')))))),
             [call])
          else
            (bind_err (weather_result data) (\<lambda>result. Inr (reply 200 result)), [call])))))))"

definition weather :: "env \<Rightarrow> request \<Rightarrow> response \<times> outbound list" where
  "weather E req =
     (case weather_try E req of
        (Inl err, calls) \<Rightarrow> (reply 500 (error_body (JStr (str ''Failed to fetch weather''))), calls)
      | (Inr r, calls) \<Rightarrow> (r, calls))"

subsection \<open>\<open>POST /api/image/generate\<close>\<close>

definition hf_headers :: "env \<Rightarrow> (jsstring \<times> jsstring) list" where
  "hf_headers E =
     [(str ''Authorization'', str ''Bearer '' @ env_text (HF_API_KEY E)),
      (str ''Content-Type'', str ''application/json'')]"

definition image_call :: "env \<Rightarrow> jsval \<Rightarrow> outbound" where
  "image_call E prompt =
     Fetch (str ''https://api-inference.huggingface.co/models/stabilityai/stable-diffusion-2-1'')
       (str ''POST'') (hf_headers E) (JObj [(str ''inputs'', prompt)])"

definition image_generate_try ::
  "env \<Rightarrow> request \<Rightarrow> (js_error + response) \<times> outbound list" where
  "image_generate_try E req =
     (case get_prop (body req) (str ''prompt'') of
        Inl e \<Rightarrow> (Inl e, [])
      | Inr prompt \<Rightarrow>
          if \<not> truthy prompt then
            (Inr (reply 400 (error_body (JStr (str ''Prompt is required'')))), [])
          else
     (case call_trim prompt of
        Inl e \<Rightarrow> (Inl e, [])
      | Inr trimmed \<Rightarrow>
          if trimmed = [] then
            (Inr (reply 400 (error_body (JStr (str ''Prompt is required'')))), [])
          else
     (case fetch E (image_call E prompt) of
        Inl e \<Rightarrow> (Inl e, [image_call E prompt])
      | Inr hfRes \<Rightarrow>
          if \<not> ok hfRes then
            (bind_err (read_text hfRes) (\<lambda>errText.
               Inr (reply 500 (error_body (JStr (str ''Image API failed''))))),
             [image_call E prompt])
          else
            (bind_err (read_arrayBuffer hfRes) (\<lambda>arrayBuffer.
               Inr (reply 200
                      (JObj [(str ''imageBase64'',
                              JStr (str ''data:image/png;base64,'' @ base64 E arrayBuffer))]))),
             [image_call E prompt]))))"

definition image_generate :: "env \<Rightarrow> request \<Rightarrow> response \<times> outbound list" where
  "image_generate E req =
     (case image_generate_try E req of
        (Inl err, calls) \<Rightarrow> (reply 500 (error_body (JStr (str ''Image generation failed''))), calls)
      | (Inr r, calls) \<Rightarrow> (r, calls))"

text \<open>
  The route as registered: \<open>app.post("/api/image/generate", async (req, res) => ...)\<close>,
  the handler alone, with no middleware before it.
\<close>

definition post_api_image_generate :: "env \<Rightarrow> request \<Rightarrow> response \<times> outbound list" where
  "post_api_image_generate E req = image_generate E req"

subsection \<open>\<open>POST /api/chat\<close>\<close>

definition default_system_prompt :: jsstring where
  "default_system_prompt =
     str ''You are a friendly AI assistant helping an IT undergraduate. Explain things simply with examples.''"

definition chat_message :: "jsstring \<Rightarrow> jsval \<Rightarrow> jsval" where
  "chat_message role content = JObj [(str ''role'', JStr role), (str ''content'', content)]"

text \<open>The list \<open>chatMessages\<close>, from the \<open>message\<close> and \<open>messages\<close> of the body.\<close>

definition chatMessages :: "jsval \<Rightarrow> jsval \<Rightarrow> jsval list" where
  "chatMessages message messages =
     (if nonempty_array messages then array_elements messages
      else [chat_message (str ''system'') (JStr default_system_prompt),
            chat_message (str ''user'') message])"

text \<open>\<open>v.toUpperCase()\<close> on a value: only a string has the method.\<close>

fun call_toUpperCase :: "env \<Rightarrow> jsval \<Rightarrow> js_error + jsstring" where
  "call_toUpperCase E (JStr s) = Inr (toUpperCase E s)"
| "call_toUpperCase E v = Inl TypeError"

text \<open>The Gemini transcript line \<open>`${m.role.toUpperCase()}: ${m.content}`\<close>.\<close>

definition gemini_line :: "env \<Rightarrow> jsval \<Rightarrow> js_error + jsstring" where
  "gemini_line E m =
     bind_err (get_prop m (str ''role'')) (\<lambda>role.
     bind_err (call_toUpperCase E role) (\<lambda>upper.
     bind_err (get_prop m (str ''content'')) (\<lambda>content.
     bind_err (ToString (NumberToString E) content) (\<lambda>c.
       Inr (upper @ str '': '' @ c)))))"

text \<open>The HuggingFace transcript line \<open>`${m.role}: ${m.content}`\<close>.\<close>

definition hf_line :: "env \<Rightarrow> jsval \<Rightarrow> js_error + jsstring" where
  "hf_line E m =
     bind_err (get_prop m (str ''role'')) (\<lambda>role.
     bind_err (ToString (NumberToString E) role) (\<lambda>r.
     bind_err (get_prop m (str ''content'')) (\<lambda>content.
     bind_err (ToString (NumberToString E) content) (\<lambda>c.
       Inr (r @ str '': '' @ c)))))"

definition hf_chat_call :: "env \<Rightarrow> jsval \<Rightarrow> outbound" where
  "hf_chat_call E userText =
     Fetch (str ''https://api-inference.huggingface.co/models/facebook/blenderbot-400M-distill'')
       (str ''POST'') (hf_headers E) (JObj [(str ''inputs'', userText)])"

text \<open>\<open>response.choices[0]?.message?.content || "No reply"\<close>.\<close>

definition completion_reply :: "jsval \<Rightarrow> js_error + jsval" where
  "completion_reply response =
     bind_err (get_prop response (str ''choices'')) (\<lambda>choices.
     bind_err (get_index0 choices) (\<lambda>choice.
       Inr (js_or (opt_prop (opt_prop choice (str ''message'')) (str ''content''))
                  (JStr (str ''No reply'')))))"

text \<open>
  The provider branches: given the \<open>provider\<close> of the request, the \<open>chatMessages\<close> and
  the \<open>message\<close>, the pair of \<open>aiReply\<close> and \<open>usedProvider\<close> (or what was thrown), and
  the external calls made.
\<close>

definition provider_dispatch ::
  "env \<Rightarrow> jsval \<Rightarrow> jsval list \<Rightarrow> jsval \<Rightarrow> (js_error + jsval \<times> jsval) \<times> outbound list" where
  "provider_dispatch E provider msgs message =
     (if provider = JStr (str ''gemini'') then
        (case map_err (gemini_line E) msgs of
           Inl e \<Rightarrow> (Inl e, [])
         | Inr ls \<Rightarrow>
             let call = GeminiGenerateContent (str ''gemini-2.0-flash'') (join (str [CHR 0x0A]) ls)
             in (bind_err (sdk E call) (\<lambda>text. Inr (text, provider)), [call]))
      else if provider = JStr (str ''deepseek'') then
        (let call = DeepseekChatCompletionsCreate (str ''deepseek-chat'') (JArr msgs) 500 (7 / 10)
         in (bind_err (sdk E call) (\<lambda>response.
             bind_err (completion_reply response) (\<lambda>aiReply. Inr (aiReply, provider))),
             [call]))
      else if provider = JStr (str ''huggingface'') then
        (case map_err (hf_line E) msgs of
           Inl e \<Rightarrow> (Inl e, [])
         | Inr ls \<Rightarrow>
             let userText = js_or (JStr (join (str [CHR 0x0A]) ls)) message;
                 call = hf_chat_call E userText
             in (bind_err (fetch E call) (\<lambda>hfRes.
                 bind_err (read_json hfRes) (\<lambda>data.
                 bind_err (get_index0 data) (\<lambda>first.
                   Inr (js_or (opt_prop first (str ''generated_text'')) (JSON_stringify E data),
                        provider)))),
                 [call]))
      else
        (let call = GroqChatCompletionsCreate (str ''llama-3.1-8b-instant'') (JArr msgs) 500 (7 / 10)
         in (bind_err (sdk E call) (\<lambda>response.
             bind_err (completion_reply response) (\<lambda>aiReply.
               Inr (aiReply, JStr (str ''groq'')))),
             [call])))"

definition chat_try :: "env \<Rightarrow> request \<Rightarrow> (js_error + response) \<times> outbound list" where
  "chat_try E req =
     (case get_prop (body req) (str ''message'') of
        Inl e \<Rightarrow> (Inl e, [])
      | Inr message \<Rightarrow>
     (case get_prop (body req) (str ''messages'') of
        Inl e \<Rightarrow> (Inl e, [])
      | Inr messages \<Rightarrow>
     (case get_prop (body req) (str ''provider'') of
        Inl e \<Rightarrow> (Inl e, [])
      | Inr p \<Rightarrow>
          let provider = (if p = JUndefined then JStr (str ''groq'') else p) in
          if \<not> truthy message \<and> \<not> nonempty_array messages then
            (Inr (reply 400
                    (error_body (JStr (str ''Either `message` or `messages` is required'')))), [])
          else
            (case provider_dispatch E provider (chatMessages message messages) message of
               (Inl e, calls) \<Rightarrow> (Inl e, calls)
             | (Inr (aiReply, usedProvider), calls) \<Rightarrow>
                 (Inr (reply 200 (JObj [(str ''reply'', aiReply),
                                        (str ''provider'', usedProvider)])), calls)))))"

text \<open>
  \<open>err?.response?.data?.error?.message || err.message || "Error contacting AI service"\<close>.
\<close>

fun errorMsg :: "env \<Rightarrow> js_error \<Rightarrow> jsval" where
  "errorMsg E TypeError =
     js_or (JStr (TypeError_message E)) (JStr (str ''Error contacting AI service''))"
| "errorMsg E (Thrown response_message message) =
     js_or response_message (js_or message (JStr (str ''Error contacting AI service'')))"

definition chat :: "env \<Rightarrow> request \<Rightarrow> response \<times> outbound list" where
  "chat E req =
     (case chat_try E req of
        (Inl err, calls) \<Rightarrow> (reply 500 (error_body (errorMsg E err)), calls)
      | (Inr r, calls) \<Rightarrow> (r, calls))"

text \<open>
  The route as registered: \<open>app.post("/api/chat", authMiddleware, async (req, res) => ...)\<close>.
\<close>

definition post_api_chat :: "env \<Rightarrow> request \<Rightarrow> response \<times> outbound list" where
  "post_api_chat E req =
     (case authMiddleware E req of
        Inl r \<Rightarrow> (r, [])
      | Inr decoded \<Rightarrow> chat E req)"

section \<open>The client: the chat collection of \<open>App\<close>\<close>

subsection \<open>Chats and messages\<close>

text \<open>
  A message of a transcript. \<open>text\<close>, \<open>provider\<close> and \<open>imageUrl\<close> of a bot message are
  copied from the JSON of the server's answer, so they are values; an absent property is
  \<open>undefined\<close>.
\<close>

record message =
  sender :: jsstring
  msg_text :: jsval
  msg_provider :: jsval
  imageUrl :: jsval

record chat =
  chat_id :: jsstring
  title :: jsstring
  createdAt :: nat
  messages :: "message list"

text \<open>
  The state of the component that the chat handlers read and write. Of the attached
  \<open>File\<close> only the name is read.
\<close>

record app_state =
  chats :: "chat list"
  activeChatId :: "jsstring option"
  input :: jsstring
  loading :: bool
  mode :: jsstring
  provider :: jsstring
  token :: "jsstring option"
  voiceEnabled :: bool
  imageFile :: "jsstring option"
  imagePreview :: "jsstring option"

text \<open>
  The browser: the clock, \<open>fetch\<close>, whether \<open>window\<close> has \<open>speechSynthesis\<close>, the
  configured \<open>API_BASE\<close>, and the decimal form of numbers.
\<close>

record browser =
  Date_now :: nat
  browser_fetch :: "outbound \<Rightarrow> js_error + fetch_response"
  speechSynthesis_in_window :: bool
  API_BASE :: jsstring
  Number_toString :: "rat \<Rightarrow> jsstring"

text \<open>
  What a handler does besides updating the state: a request, a spoken text, and the
  failure of a state update that throws when React runs it.
\<close>

datatype effect =
    HttpRequest outbound
  | Speak jsval
  | RenderError js_error

text \<open>\<open>n.toString()\<close> of a non-negative integer.\<close>

function decimal :: "nat \<Rightarrow> jsstring" where
  "decimal n = (if n < 10 then [of_nat (48 + n)] else decimal (n div 10) @ [of_nat (48 + n mod 10)])"
  by pat_completeness auto
termination
  by (relation "measure id") auto

definition greeting_text :: jsstring where
  "greeting_text = str ''Hi! I'm your Falcon AI '' @ [0xD83E, 0xDD16] @ str ''. Ask me anything!''"

definition greeting :: message where
  "greeting = \<lparr>sender = str ''bot'', msg_text = JStr greeting_text,
               msg_provider = JStr (str ''groq''), imageUrl = JUndefined\<rparr>"

definition createNewChat :: "browser \<Rightarrow> chat" where
  "createNewChat B =
     \<lparr>chat_id = decimal (Date_now B), title = str ''New chat'', createdAt = Date_now B,
      messages = [greeting]\<rparr>"

text \<open>\<open>chats.find((c) => c.id === activeChatId) || chats[0] || createNewChat()\<close>.\<close>

definition activeChat :: "browser \<Rightarrow> app_state \<Rightarrow> chat" where
  "activeChat B st =
     (case find (\<lambda>c. Some (chat_id c) = activeChatId st) (chats st) of
        Some c \<Rightarrow> c
      | None \<Rightarrow> (case chats st of c # cs \<Rightarrow> c | [] \<Rightarrow> createNewChat B))"

subsection \<open>clearCurrentChat\<close>

definition clearCurrentChat :: "browser \<Rightarrow> app_state \<Rightarrow> app_state" where
  "clearCurrentChat B st =
     st\<lparr>chats :=
          map (\<lambda>chat. if chat_id chat = chat_id (activeChat B st)
                       then chat\<lparr>title := str ''New chat'', messages := [greeting]\<rparr>
                       else chat)
              (chats st),
        input := [],
        imageFile := None,
        imagePreview := None\<rparr>"

subsection \<open>sendMessage\<close>

definition dateLine :: jsstring where
  "dateLine =
     str ''Today's date is February 2025. Use the most accurate and up-to-date knowledge available. '' @
     str ''If you are unsure about anything, answer honestly instead of guessing.''"

definition getSystemPrompt :: "jsstring \<Rightarrow> jsstring" where
  "getSystemPrompt m =
     (if m = str ''coding'' then
        str ''You are a professional coding tutor helping an IT undergraduate in 2025. '' @
        str ''Explain concepts clearly with step-by-step instructions. '' @
        str ''Use modern frameworks and 2025 standards (React 19+, Node 20+, Java 21, Kotlin 2.0+, Tailwind, modern MERN best practices). '' @
        dateLine
      else if m = str ''study'' then
        str ''You help university students understand academic subjects in 2025. '' @
        str ''Explain topics in simple English with examples, bullet points, and clear reasoning. '' @
        str ''Focus on updated 2025 content, IT standards, and modern knowledge. '' @
        dateLine
      else if m = str ''cv'' then
        str ''You help students improve CVs, cover letters, LinkedIn profiles, and job applications. '' @
        str ''Give 2025 recruitment trends, ATS-friendly suggestions, modern skill keywords, and professional tone. '' @
        dateLine
      else if m = str ''sinhala'' then
        str ''You are a Sinhala translator and explainer. Translate between English and Sinhala accurately. '' @
        str ''Explain meanings in simple Sinhala when needed. '' @
        dateLine
      else if m = str ''image'' then
        str ''You are an AI that helps generate images from text prompts. '' @
        str ''The actual image will be produced by a separate image model. '' @
        str ''Help the user improve prompts if needed. '' @
        dateLine
      else
        str ''You are a friendly AI assistant helping an IT undergraduate in 2025. '' @
        str ''Explain things simply with examples, keep answers updated, and provide practical help. '' @
        dateLine)"

text \<open>The text of the outgoing message: the trimmed input and the note on an attachment.\<close>

definition userText :: "app_state \<Rightarrow> jsstring" where
  "userText st =
     trim (input st) @
     (case imageFile st of
        None \<Rightarrow> []
      | Some name \<Rightarrow>
          str [CHR 0x0A, CHR 0x0A] @ str ''[User has attached an image: '' @ [0x22] @ name @
          [0x22] @ str ''. Backend cannot see the actual pixels.]'')"

definition user_message :: "jsstring \<Rightarrow> message" where
  "user_message t =
     \<lparr>sender = str ''user'', msg_text = JStr t, msg_provider = JUndefined,
      imageUrl = JUndefined\<rparr>"

text \<open>The title of a chat after a user message with text \<open>t\<close> was appended to it.\<close>

definition newTitle :: "chat \<Rightarrow> jsstring \<Rightarrow> jsstring" where
  "newTitle c t =
     (if title c = str ''New chat'' then
        (let trimmed = trim (replace_ws_runs t)
         in if length trimmed > 40 then take 40 trimmed @ str ''...'' else trimmed)
      else title c)"

text \<open>Step 1: the user message is added to the chat with the active chat's id.\<close>

definition add_user_message :: "jsstring \<Rightarrow> jsstring \<Rightarrow> chat list \<Rightarrow> chat list" where
  "add_user_message active_id t prev =
     map (\<lambda>chat. if chat_id chat \<noteq> active_id then chat
                  else chat\<lparr>messages := messages chat @ [user_message t],
                            title := newTitle chat t\<rparr>)
         prev"

text \<open>The later updates: one bot message is added to the chat with that id.\<close>

definition add_bot_message :: "jsstring \<Rightarrow> message \<Rightarrow> chat list \<Rightarrow> chat list" where
  "add_bot_message active_id m prev =
     map (\<lambda>chat. if chat_id chat = active_id then chat\<lparr>messages := messages chat @ [m]\<rparr>
                  else chat)
         prev"

definition bot_message :: "jsval \<Rightarrow> jsval \<Rightarrow> jsval \<Rightarrow> message" where
  "bot_message t p u = \<lparr>sender = str ''bot'', msg_text = t, msg_provider = p, imageUrl = u\<rparr>"

definition authorization_header :: "app_state \<Rightarrow> jsstring" where
  "authorization_header st =
     (case token st of
        None \<Rightarrow> []
      | Some t \<Rightarrow> if t = [] then [] else str ''Bearer '' @ t)"

definition warning_sign :: jsstring where
  "warning_sign = [0x26A0, 0xFE0F]"

text \<open>Image mode: the request to \<open>/api/image/generate\<close> and the bot message it leads to.\<close>

definition image_request :: "browser \<Rightarrow> app_state \<Rightarrow> jsstring \<Rightarrow> outbound" where
  "image_request B st t =
     Fetch (API_BASE B @ str ''/api/image/generate'') (str ''POST'')
       [(str ''Content-Type'', str ''application/json''),
        (str ''Authorization'', authorization_header st)]
       (JObj [(str ''prompt'', JStr t)])"

text \<open>
  The \<open>try\<close> block in image mode ends with a call of \<open>setChats\<close>, for one of two
  updates: the error message for \<open>errMsg\<close>, or the generated image.
\<close>

datatype image_outcome =
    ImageFailed jsval
  | ImageGenerated jsval

definition send_image_try :: "browser \<Rightarrow> app_state \<Rightarrow> jsstring \<Rightarrow> js_error + image_outcome" where
  "send_image_try B st t =
     bind_err (browser_fetch B (image_request B st t)) (\<lambda>res.
     bind_err (read_json res) (\<lambda>data.
     bind_err (if \<not> ok res then Inr True
               else bind_err (get_prop data (str ''imageBase64'')) (\<lambda>i. Inr (\<not> truthy i)))
       (\<lambda>failed.
          if failed then
            bind_err (get_prop data (str ''error'')) (\<lambda>e.
              Inr (ImageFailed (js_or e (JStr (str ''Image generation failed.'')))))
          else
            bind_err (get_prop data (str ''imageBase64'')) (\<lambda>i. Inr (ImageGenerated i)))))"

text \<open>
  The message that the update function builds. The template literal with
  \<open>${errMsg}\<close> stands inside the function passed to \<open>setChats\<close>: React runs it
  after the handler's \<open>try\<close> block, so a conversion that throws is not caught there.
\<close>

fun image_update :: "browser \<Rightarrow> image_outcome \<Rightarrow> js_error + message" where
  "image_update B (ImageFailed errMsg) =
     bind_err (ToString (Number_toString B) errMsg) (\<lambda>s.
       Inr (bot_message (JStr (warning_sign @ str '' '' @ s)) JUndefined JUndefined))"
| "image_update B (ImageGenerated i) =
     Inr (bot_message (JStr (str ''Here is your generated image '' @ [0xD83C, 0xDFA8]))
            (JStr (str ''huggingface'')) i)"

text \<open>The message of the update in image mode: that of the \<open>catch\<close> block, or the above.\<close>

definition send_image_message :: "browser \<Rightarrow> app_state \<Rightarrow> jsstring \<Rightarrow> js_error + message" where
  "send_image_message B st t =
     (case send_image_try B st t of
        Inl err \<Rightarrow>
          Inr (bot_message (JStr (warning_sign @ str '' Error contacting image server.''))
                 JUndefined JUndefined)
      | Inr outcome \<Rightarrow> image_update B outcome)"

text \<open>The other modes: the request to \<open>/api/chat\<close> and the bot message it leads to.\<close>

definition formattedMessages :: "browser \<Rightarrow> app_state \<Rightarrow> jsstring \<Rightarrow> jsval" where
  "formattedMessages B st t =
     JArr ([chat_message (str ''system'') (JStr (getSystemPrompt (mode st)))] @
           map (\<lambda>m. chat_message
                       (if sender m = str ''user'' then str ''user'' else str ''assistant'')
                       (msg_text m))
               (messages (activeChat B st)) @
           [chat_message (str ''user'') (JStr t)])"

definition chat_request :: "browser \<Rightarrow> app_state \<Rightarrow> jsstring \<Rightarrow> outbound" where
  "chat_request B st t =
     Fetch (API_BASE B @ str ''/api/chat'') (str ''POST'')
       [(str ''Content-Type'', str ''application/json''),
        (str ''Authorization'', authorization_header st)]
       (JObj [(str ''provider'', JStr (provider st)),
              (str ''messages'', formattedMessages B st t)])"

text \<open>The \<open>try\<close> block up to its \<open>setChats\<close>: the pair of \<open>botText\<close> and \<open>data\<close>.\<close>

definition send_chat_try :: "browser \<Rightarrow> app_state \<Rightarrow> jsstring \<Rightarrow> js_error + jsval \<times> jsval" where
  "send_chat_try B st t =
     bind_err (browser_fetch B (chat_request B st t)) (\<lambda>res.
     bind_err (read_json res) (\<lambda>data.
     bind_err (get_prop data (str ''reply'')) (\<lambda>r.
     bind_err (get_prop data (str ''error'')) (\<lambda>e.
       Inr (js_or r (js_or e (JStr (str ''Hmm, I couldn't reply.''))), data)))))"

text \<open>
  The message that the update function builds; \<open>data.provider ?? provider\<close> is read
  inside it.
\<close>

definition chat_update :: "app_state \<Rightarrow> jsval \<times> jsval \<Rightarrow> js_error + message" where
  "chat_update st bd =
     bind_err (get_prop (snd bd) (str ''provider'')) (\<lambda>p.
       Inr (bot_message (fst bd) (js_nullish p (JStr (provider st))) JUndefined))"

definition send_chat_message :: "browser \<Rightarrow> app_state \<Rightarrow> jsstring \<Rightarrow> js_error + message" where
  "send_chat_message B st t =
     (case send_chat_try B st t of
        Inl err \<Rightarrow>
          Inr (bot_message (JStr (warning_sign @ str '' Error contacting server.''))
                 JUndefined JUndefined)
      | Inr bd \<Rightarrow> chat_update st bd)"

text \<open>\<open>speakText(botText)\<close>, reached only when the \<open>try\<close> block did not throw.\<close>

definition speakText :: "browser \<Rightarrow> app_state \<Rightarrow> jsval \<Rightarrow> effect list" where
  "speakText B st t =
     (if \<not> voiceEnabled st then []
      else if \<not> speechSynthesis_in_window B then []
      else [Speak t])"


text \<open>The bot message that the update of a send builds, by mode, or what it throws.\<close>

definition sent_bot_message :: "browser \<Rightarrow> app_state \<Rightarrow> js_error + message" where
  "sent_bot_message B st =
     (if mode st = str ''image'' then send_image_message B st (userText st)
      else send_chat_message B st (userText st))"

text \<open>The effects of the \<open>try\<close> block, by mode: the request, and the spoken reply.\<close>

definition send_effects :: "browser \<Rightarrow> app_state \<Rightarrow> effect list" where
  "send_effects B st =
     (if mode st = str ''image'' then [HttpRequest (image_request B st (userText st))]
      else HttpRequest (chat_request B st (userText st)) #
           (case send_chat_try B st (userText st) of
              Inl err \<Rightarrow> []
            | Inr bd \<Rightarrow> speakText B st (fst bd)))"

text \<open>
  The handler runs in two parts. The first, up to the \<open>await\<close> of the request, adds the
  user message, clears the input and the attachment and sets \<open>loading\<close>.
\<close>

definition sendMessage_begin :: "browser \<Rightarrow> app_state \<Rightarrow> app_state" where
  "sendMessage_begin B st =
     st\<lparr>chats := add_user_message (chat_id (activeChat B st)) (userText st) (chats st),
        input := [], imageFile := None, imagePreview := None, loading := True\<rparr>"

text \<open>
  The second part runs when the request has been answered. Its updates
  (\<open>setChats((prev) => ...)\<close>, \<open>setLoading(false)\<close>) apply to the state \<open>cur\<close> that is
  current then, with the active chat, the texts and the mode of the state \<open>st\<close> in which
  the handler was called. When the update function throws, the collection is not
  updated and the render fails.
\<close>

definition sendMessage_end :: "browser \<Rightarrow> app_state \<Rightarrow> app_state \<Rightarrow> app_state \<times> effect list" where
  "sendMessage_end B st cur =
     (case sent_bot_message B st of
        Inr m \<Rightarrow>
          (cur\<lparr>chats := add_bot_message (chat_id (activeChat B st)) m (chats cur),
               loading := False\<rparr>,
           send_effects B st)
      | Inl err \<Rightarrow>
          (cur\<lparr>loading := False\<rparr>, send_effects B st @ [RenderError err]))"

text \<open>
  The whole handler, for a send during which no other handler updates the state: the
  guard, then the two parts one after the other.
\<close>

definition sendMessage :: "browser \<Rightarrow> app_state \<Rightarrow> app_state \<times> effect list" where
  "sendMessage B st =
     (if (trim (input st) = [] \<and> imageFile st = None) \<or> loading st then (st, [])
      else sendMessage_end B st (sendMessage_begin B st))"

subsection \<open>Terms of the specification\<close>


text \<open>\<open>Object.keys(v)\<close> of an object: the names of its fields.\<close>

fun object_keys :: "jsval \<Rightarrow> jsstring list" where
  "object_keys (JObj kvs) = map fst kvs"
| "object_keys v = []"

section \<open>Concrete inputs\<close>

text \<open>A small world to run the handlers in: one registered user, providers that answer.\<close>

definition example_user :: user where
  "example_user =
     \<lparr>user_id = str ''u1'', user_name = str ''Ann'', user_email = str ''ann@example.org'',
      user_password = str ''hash-of-secret''\<rparr>"

definition example_weather_data :: jsval where
  "example_weather_data =
     JObj [(str ''name'', JStr (str ''Colombo'')),
           (str ''sys'', JObj [(str ''country'', JStr (str ''LK''))]),
           (str ''main'', JObj [(str ''temp'', JNum 30), (str ''feels_like'', JNum 33),
                                (str ''humidity'', JNum 70)]),
           (str ''weather'', JArr [JObj [(str ''description'', JStr (str ''clear sky'')),
                                         (str ''icon'', JStr (str ''01d''))]])]"

definition example_fetch_response :: fetch_response where
  "example_fetch_response =
     \<lparr>ok = True, http_status = 200, read_json = Inr example_weather_data,
      read_text = Inr [], read_arrayBuffer = Inr []\<rparr>"

definition example_completion :: jsval where
  "example_completion =
     JObj [(str ''choices'',
            JArr [JObj [(str ''message'', JObj [(str ''content'', JStr (str ''Hello''))])]])]"

text \<open>\<open>toUpperCase\<close> on the letters a to z; the example roles have no others.\<close>

definition ascii_upper :: "jsstring \<Rightarrow> jsstring" where
  "ascii_upper s = map (\<lambda>c. if 0x61 \<le> c \<and> c \<le> 0x7A then c - 0x20 else c) s"

definition example_env :: env where
  "example_env =
     \<lparr>WEATHER_API_KEY = Some (str ''key''),
      HF_API_KEY = Some (str ''hf''),
      JWT_EXPIRES_IN = None,
      jwt_verify = (\<lambda>t. if t = str ''good'' then Inr (JObj [(str ''id'', JStr (str ''u1''))])
                          else Inl (Thrown JUndefined (JStr (str ''invalid token'')))),
      jwt_sign = (\<lambda>payload expiresIn. Inr (str ''good'')),
      User_findOne = (\<lambda>email. if email = JStr (str ''ann@example.org'')
                                then Inr (Some example_user) else Inr None),
      bcrypt_compare = (\<lambda>password hash.
                          Inr (password = JStr (str ''secret'') \<and> hash = str ''hash-of-secret'')),
      sdk = (\<lambda>call. Inr example_completion),
      fetch = (\<lambda>call. Inr example_fetch_response),
      encodeURIComponent = (\<lambda>s. Inr s),
      toUpperCase = ascii_upper,
      NumberToString = (\<lambda>n. str ''0''),
      JSON_stringify = (\<lambda>v. JStr (str ''{}'')),
      base64 = (\<lambda>bytes. []),
      TypeError_message = str ''TypeError''\<rparr>"

definition example_message :: jsstring where
  "example_message = str ''Explain recursion in simple terms for a beginner please''"

definition example_chats :: "chat list" where
  "example_chats =
     [\<lparr>chat_id = str ''1700000000001'', title = str ''New chat'', createdAt = 1700000000001,
       messages = [greeting]\<rparr>,
      \<lparr>chat_id = str ''1700000000002'', title = str ''Weather in Kandy'',
       createdAt = 1700000000002,
       messages = [greeting, user_message (str ''Weather in Kandy''),
                   bot_message (JStr (str ''Sunny'')) (JStr (str ''groq'')) JUndefined]\<rparr>]"

definition example_state :: app_state where
  "example_state =
     \<lparr>chats = example_chats, activeChatId = Some (str ''1700000000001''),
      input = example_message, loading = False, mode = str ''general'', provider = str ''groq'',
      token = Some (str ''good''), voiceEnabled = False, imageFile = None,
      imagePreview = None\<rparr>"

text \<open>
  A collection in which two chats have the same id, as two chats created in the same
  millisecond, or stored so, have.
\<close>

definition twin_state :: app_state where
  "twin_state =
     \<lparr>chats =
        [\<lparr>chat_id = str ''1700000000001'', title = str ''First'', createdAt = 1700000000001,
          messages = [greeting, user_message (str ''one'')]\<rparr>,
         \<lparr>chat_id = str ''1700000000001'', title = str ''Second'', createdAt = 1700000000001,
          messages = [greeting, user_message (str ''two'')]\<rparr>],
      activeChatId = Some (str ''1700000000001''),
      input = [], loading = False, mode = str ''general'', provider = str ''groq'',
      token = Some (str ''good''), voiceEnabled = False, imageFile = None,
      imagePreview = None\<rparr>"

text \<open>A browser whose requests meet a network failure.\<close>

definition offline_browser :: browser where
  "offline_browser =
     \<lparr>Date_now = 1700000000003,
      browser_fetch = (\<lambda>call. Inl (Thrown JUndefined (JStr (str ''Failed to fetch'')))),
      speechSynthesis_in_window = False,
      API_BASE = str ''http://localhost:5000'',
      Number_toString = (\<lambda>n. str ''0'')\<rparr>"


definition example_gemini_request :: request where
  "example_gemini_request =
     \<lparr>authorization = Some (str ''Bearer good''),
      body = JObj [(str ''message'', JStr (str ''Hello'')),
                   (str ''provider'', JStr (str ''gemini''))]\<rparr>"

definition example_huggingface_request :: request where
  "example_huggingface_request =
     \<lparr>authorization = Some (str ''Bearer good''),
      body = JObj [(str ''message'', JStr (str ''Hello'')),
                   (str ''provider'', JStr (str ''huggingface''))]\<rparr>"

definition example_weather_request :: request where
  "example_weather_request =
     \<lparr>authorization = None, body = JObj [(str ''city'', JStr (str ''Colombo''))]\<rparr>"

section \<open>Auxiliary facts\<close>

lemma status_reply: "status (reply n b) = n"
  by (simp add: reply_def)

lemma json_body_reply: "json_body (reply n b) = json_wire b"
  by (simp add: reply_def)

lemma trim_all_ws: "(\<forall>c\<in>set s. isWhiteSpace c) \<Longrightarrow> trim s = []"
proof -
  assume "\<forall>c\<in>set s. isWhiteSpace c"
  then have d: "dropWhile isWhiteSpace s = []" by (induction s) auto
  show ?thesis unfolding trim_def d by simp
qed

lemma activeChat_index:
  "chats st \<noteq> [] \<Longrightarrow> \<exists>i<length (chats st). activeChat B st = chats st ! i"
proof (cases "find (\<lambda>c. Some (chat_id c) = activeChatId st) (chats st)")
  case None
  assume "chats st \<noteq> []"
  then obtain c cs where "chats st = c # cs" by (cases "chats st") auto
  with None show ?thesis by (auto simp: activeChat_def intro: exI[of _ 0])
next
  case (Some c)
  then obtain i where "i < length (chats st)" "chats st ! i = c"
    by (auto simp: find_Some_iff)
  with Some show ?thesis by (auto simp: activeChat_def)
qed

lemma map_at_distinct_id:
  assumes "distinct (map chat_id cs)" "i < length cs"
  shows "map (\<lambda>c. if chat_id c = chat_id (cs ! i) then f c else c) cs = cs[i := f (cs ! i)]"
proof (rule nth_equalityI)
  show "length (map (\<lambda>c. if chat_id c = chat_id (cs ! i) then f c else c) cs) =
        length (cs[i := f (cs ! i)])"
    by simp
next
  fix j assume "j < length (map (\<lambda>c. if chat_id c = chat_id (cs ! i) then f c else c) cs)"
  then have j: "j < length cs" by simp
  have "chat_id (cs ! j) = chat_id (cs ! i) \<longleftrightarrow> j = i"
    using assms j nth_eq_iff_index_eq[of "map chat_id cs" j i] by auto
  with j show "map (\<lambda>c. if chat_id c = chat_id (cs ! i) then f c else c) cs ! j =
               cs[i := f (cs ! i)] ! j"
    by (auto simp: nth_list_update)
qed

lemma find_map_id:
  assumes "\<And>c. chat_id (g c) = chat_id c"
  shows "find (\<lambda>c. Some (chat_id c) = a) (map g cs) =
         map_option g (find (\<lambda>c. Some (chat_id c) = a) cs)"
  using assms by (induction cs) auto

lemma activeChat_map:
  assumes "\<And>c. chat_id (g c) = chat_id c" "chats st \<noteq> []"
    and "chats st' = map g (chats st)" "activeChatId st' = activeChatId st"
  shows "activeChat B st' = g (activeChat B st)"
proof -
  obtain c cs where cs: "chats st = c # cs" using assms(2) by (cases "chats st") auto
  have f: "find (\<lambda>c. Some (chat_id c) = activeChatId st') (chats st') =
           map_option g (find (\<lambda>c. Some (chat_id c) = activeChatId st) (chats st))"
    using find_map_id[of g "activeChatId st" "chats st"] assms(1,3,4) by simp
  show ?thesis
  proof (cases "find (\<lambda>c. Some (chat_id c) = activeChatId st) (chats st)")
    case None
    with f cs assms(3) show ?thesis by (simp add: activeChat_def)
  next
    case (Some a)
    with f show ?thesis by (simp add: activeChat_def)
  qed
qed

lemma example_chats_distinct: "distinct (map chat_id example_chats)"
  by (simp add: example_chats_def str_def)

subsection \<open>Trimming and collapsing white space commute\<close>

lemma trim_end_Nil: "trim_end [] = []"
  by (simp add: trim_end_def)

lemma trim_end_Cons:
  "trim_end (c # cs) = (if trim_end cs = [] \<and> isWhiteSpace c then [] else c # trim_end cs)"
  by (auto simp: trim_end_def dropWhile_append dropWhile_eq_Nil_conv)

lemma trim_trim_end: "trim s = trim_end (dropWhile isWhiteSpace s)"
  by (simp add: trim_def trim_end_def)

lemma trim_end_dropWhile:
  "trim_end (dropWhile isWhiteSpace s) = dropWhile isWhiteSpace (trim_end s)"
  by (induction s) (auto simp: trim_end_Nil trim_end_Cons)

lemma replace_ws_runs_Nil_iff: "replace_ws_runs s = [] \<longleftrightarrow> s = []"
  by (cases s) auto

lemma space_is_ws: "isWhiteSpace 0x20"
  by (simp add: isWhiteSpace_def)

lemma dropWhile_replace_no_ws:
  "s = [] \<or> \<not> isWhiteSpace (hd s) \<Longrightarrow>
   dropWhile isWhiteSpace (replace_ws_runs s) = replace_ws_runs s"
  by (cases s) auto

lemma dropWhile_head: "dropWhile P s = [] \<or> \<not> P (hd (dropWhile P s))"
  by (induction s) auto

lemma dropWhile_replace_ws_runs:
  "dropWhile isWhiteSpace (replace_ws_runs s) = replace_ws_runs (dropWhile isWhiteSpace s)"
proof (cases s)
  case Nil
  then show ?thesis by simp
next
  case (Cons c cs)
  show ?thesis
  proof (cases "isWhiteSpace c")
    case True
    with Cons show ?thesis
      using dropWhile_replace_no_ws [of "dropWhile isWhiteSpace cs"]
        dropWhile_head [of isWhiteSpace cs]
      by (simp add: space_is_ws)
  next
    case False
    with Cons show ?thesis by simp
  qed
qed

lemma trim_end_replace_ws_runs:
  "trim_end (replace_ws_runs s) = replace_ws_runs (trim_end s)"
proof (induction s rule: replace_ws_runs.induct)
  case 1
  then show ?case by (simp add: trim_end_Nil)
next
  case (2 c cs)
  show ?case
  proof (cases "isWhiteSpace c")
    case False
    with 2 show ?thesis by (simp add: trim_end_Cons)
  next
    case True
    have ih: "trim_end (replace_ws_runs (dropWhile isWhiteSpace cs)) =
              replace_ws_runs (trim_end (dropWhile isWhiteSpace cs))"
      using 2(1) True by simp
    have e: "trim_end (dropWhile isWhiteSpace cs) = [] \<longleftrightarrow> trim_end cs = []"
      by (induction cs) (auto simp: trim_end_Nil trim_end_Cons)
    show ?thesis
      using True ih e
      by (simp add: trim_end_Cons space_is_ws replace_ws_runs_Nil_iff trim_end_dropWhile)
  qed
qed

lemma trim_replace_ws_runs: "trim (replace_ws_runs s) = replace_ws_runs (trim s)"
  by (simp add: trim_trim_end dropWhile_replace_ws_runs trim_end_replace_ws_runs)

subsection \<open>The chat handler\<close>

lemma provider_names_distinct:
  "str ''groq'' \<noteq> str ''gemini''" "str ''groq'' \<noteq> str ''deepseek''"
  "str ''groq'' \<noteq> str ''huggingface''"
  by (simp_all add: str_def)

lemma get_prop_chat_message:
  "get_prop (chat_message r c) (str ''role'') = Inr (JStr r)"
  "get_prop (chat_message r c) (str ''content'') = Inr c"
  by (simp_all add: chat_message_def str_def)



lemma example_gemini_request_auth:
  "authMiddleware example_env example_gemini_request = Inr (JObj [(str ''id'', JStr (str ''u1''))])"
  by (simp add: authMiddleware_def example_gemini_request_def example_env_def startsWith_def
        str_def)

lemma example_gemini_request_fields:
  "get_prop (body example_gemini_request) (str ''message'') = Inr (JStr (str ''Hello''))"
  "get_prop (body example_gemini_request) (str ''messages'') = Inr JUndefined"
  "get_prop (body example_gemini_request) (str ''provider'') = Inr (JStr (str ''gemini''))"
  by (simp_all add: example_gemini_request_def str_def)

lemma example_huggingface_request_auth:
  "authMiddleware example_env example_huggingface_request =
     Inr (JObj [(str ''id'', JStr (str ''u1''))])"
  by (simp add: authMiddleware_def example_huggingface_request_def example_env_def
        startsWith_def str_def)

lemma example_huggingface_request_fields:
  "get_prop (body example_huggingface_request) (str ''message'') = Inr (JStr (str ''Hello''))"
  "get_prop (body example_huggingface_request) (str ''messages'') = Inr JUndefined"
  "get_prop (body example_huggingface_request) (str ''provider'') =
     Inr (JStr (str ''huggingface''))"
  by (simp_all add: example_huggingface_request_def str_def)

lemma example_env_toUpperCase:
  "toUpperCase example_env (str ''system'') = str ''SYSTEM''"
  "toUpperCase example_env (str ''user'') = str ''USER''"
  by (simp_all add: example_env_def ascii_upper_def str_def)

text \<open>A request with a single message text: the list built, and where it goes.\<close>

lemma single_message_calls:
  assumes "authMiddleware E req = Inr decoded"
    and "get_prop (body req) (str ''message'') = Inr (JStr t)"
    and "t \<noteq> []"
    and "get_prop (body req) (str ''messages'') = Inr msgs"
    and "\<not> nonempty_array msgs"
    and "get_prop (body req) (str ''provider'') = Inr p"
  shows "chatMessages (JStr t) msgs =
           [chat_message (str ''system'') (JStr default_system_prompt),
            chat_message (str ''user'') (JStr t)]"
    and "snd (post_api_chat E req) =
           snd (provider_dispatch E (if p = JUndefined then JStr (str ''groq'') else p)
                  [chat_message (str ''system'') (JStr default_system_prompt),
                   chat_message (str ''user'') (JStr t)] (JStr t))"
proof -
  let ?prov = "if p = JUndefined then JStr (str ''groq'') else p"
  let ?two = "[chat_message (str ''system'') (JStr default_system_prompt),
               chat_message (str ''user'') (JStr t)]"
  show cm: "chatMessages (JStr t) msgs = ?two"
    using assms(5) by (simp add: chatMessages_def)
  have c: "chat_try E req =
      (case provider_dispatch E ?prov ?two (JStr t) of
               (Inl e, calls) \<Rightarrow> (Inl e, calls)
             | (Inr (aiReply, usedProvider), calls) \<Rightarrow>
                 (Inr (reply 200 (JObj [(str ''reply'', aiReply),
                                        (str ''provider'', usedProvider)])), calls))"
    using assms(2-4,6) by (auto simp: chat_try_def Let_def cm)
  show "snd (post_api_chat E req) = snd (provider_dispatch E ?prov ?two (JStr t))"
    using assms(1)
    by (simp add: post_api_chat_def chat_def c split: prod.splits sum.splits)
qed

lemma gemini_lines:
  "map_err (gemini_line E) [chat_message (str ''system'') (JStr P),
                            chat_message (str ''user'') (JStr t)] =
     Inr [toUpperCase E (str ''system'') @ str '': '' @ P,
          toUpperCase E (str ''user'') @ str '': '' @ t]"
  by (simp add: map_err_def gemini_line_def get_prop_chat_message bind_err_def)

lemma huggingface_lines:
  "map_err (hf_line E) [chat_message (str ''system'') (JStr P),
                        chat_message (str ''user'') (JStr t)] =
     Inr [str ''system'' @ str '': '' @ P, str ''user'' @ str '': '' @ t]"
  by (simp add: map_err_def hf_line_def get_prop_chat_message bind_err_def)

lemma default_system_prompt_text:
  "str ''SYSTEM'' @ str '': '' @ default_system_prompt =
     str ''SYSTEM: You are a friendly AI assistant helping an IT undergraduate. Explain things simply with examples.''"
  "str ''system'' @ str '': '' @ default_system_prompt =
     str ''system: You are a friendly AI assistant helping an IT undergraduate. Explain things simply with examples.''"
  "str ''USER'' @ str '': '' @ t = str ''USER: '' @ t"
  "str ''user'' @ str '': '' @ t = str ''user: '' @ t"
  "str [CHR 0x0A] = [0x0A]"
  by (simp_all add: str_def default_system_prompt_def)

lemma single_message_gemini:
  assumes "toUpperCase E (str ''system'') = str ''SYSTEM''"
    and "toUpperCase E (str ''user'') = str ''USER''"
  shows "snd (provider_dispatch E (JStr (str ''gemini''))
                [chat_message (str ''system'') (JStr default_system_prompt),
                 chat_message (str ''user'') (JStr t)] (JStr t)) =
           [GeminiGenerateContent (str ''gemini-2.0-flash'')
              (str ''SYSTEM: You are a friendly AI assistant helping an IT undergraduate. Explain things simply with examples.'' @
               [0x0A] @ str ''USER: '' @ t)]"
proof -
  have j: "join [0x0A] [str ''SYSTEM'' @ str '': '' @ default_system_prompt,
                        str ''USER'' @ str '': '' @ t] =
           str ''SYSTEM: You are a friendly AI assistant helping an IT undergraduate. Explain things simply with examples.'' @
             [0x0A] @ str ''USER: '' @ t"
    by (simp add: str_def default_system_prompt_def)
  show ?thesis
    unfolding provider_dispatch_def gemini_lines assms
    by (simp add: Let_def j default_system_prompt_text(5) del: join.simps)
qed

lemma single_message_huggingface:
  "snd (provider_dispatch E (JStr (str ''huggingface''))
          [chat_message (str ''system'') (JStr default_system_prompt),
           chat_message (str ''user'') (JStr t)] (JStr t)) =
     [Fetch (str ''https://api-inference.huggingface.co/models/facebook/blenderbot-400M-distill'')
        (str ''POST'')
        [(str ''Authorization'',
          str ''Bearer '' @ (case HF_API_KEY E of None \<Rightarrow> str ''undefined'' | Some k \<Rightarrow> k)),
         (str ''Content-Type'', str ''application/json'')]
        (JObj [(str ''inputs'',
                JStr (str ''system: You are a friendly AI assistant helping an IT undergraduate. Explain things simply with examples.'' @
                      [0x0A] @ str ''user: '' @ t))])]"
proof -
  have n: "str ''huggingface'' \<noteq> str ''gemini''" "str ''huggingface'' \<noteq> str ''deepseek''"
    by (simp_all add: str_def)
  have j: "join [0x0A] [str ''system'' @ str '': '' @ default_system_prompt,
                        str ''user'' @ str '': '' @ t] =
           str ''system: You are a friendly AI assistant helping an IT undergraduate. Explain things simply with examples.'' @
             [0x0A] @ str ''user: '' @ t"
    by (simp add: str_def default_system_prompt_def)
  have k: "js_or (JStr (a @ c # b)) m = JStr (a @ c # b)" for a b :: jsstring and c m
    by (simp add: js_or_def)
  show ?thesis
    unfolding provider_dispatch_def huggingface_lines
    using n
    by (simp add: Let_def j k default_system_prompt_text(5) hf_chat_call_def hf_headers_def
          env_text_def del: join.simps)
qed

subsection \<open>The weather handler\<close>

lemma is_json_defined: "is_json v \<Longrightarrow> v \<noteq> JUndefined"
  by auto

lemma json_wire_is_json: "is_json v \<Longrightarrow> json_wire v = v"
proof (induction v)
  case (JArr xs)
  have "map (\<lambda>x. if x = JUndefined then JNull else json_wire x) xs = xs"
  proof (rule map_idI)
    fix x assume x: "x \<in> set xs"
    with JArr.prems have j: "is_json x" by (simp add: list_all_iff)
    with JArr.IH [OF x] is_json_defined [OF j]
    show "(if x = JUndefined then JNull else json_wire x) = x" by simp
  qed
  then show ?case by simp
next
  case (JObj kvs)
  have j: "is_json (snd kv)" if "kv \<in> set kvs" for kv
    using JObj.prems that by (simp add: list_all_iff)
  have m: "map (\<lambda>kv. (fst kv, json_wire (snd kv))) kvs = kvs"
  proof (rule map_idI)
    fix kv assume kv: "kv \<in> set kvs"
    have "json_wire (snd kv) = snd kv"
      using JObj.IH [OF kv, of "snd kv"] j [OF kv] by (cases kv) simp
    then show "(fst kv, json_wire (snd kv)) = kv" by simp
  qed
  have f: "filter (\<lambda>kv. snd kv \<noteq> JUndefined) kvs = kvs"
    using j is_json_defined by (auto simp: filter_id_conv)
  show ?case by (simp add: m f)
qed simp_all

lemma json_wire_field: "v = JUndefined \<or> is_json v \<Longrightarrow> json_wire v = v"
  using json_wire_is_json by auto

lemma get_prop_opt_prop: "get_prop v k = Inr x \<Longrightarrow> x = opt_prop v k"
  by (cases v) auto


lemma is_json_opt_prop:
  "v = JUndefined \<or> is_json v \<Longrightarrow> opt_prop v k = JUndefined \<or> is_json (opt_prop v k)"
proof (cases v)
  case (JObj kvs)
  assume "v = JUndefined \<or> is_json v"
  with JObj have a: "list_all (\<lambda>kv. is_json (snd kv)) kvs" by simp
  show ?thesis
  proof (cases "map_of kvs k")
    case None
    with JObj show ?thesis by simp
  next
    case (Some x)
    then have "(k, x) \<in> set kvs" by (rule map_of_SomeD)
    with a have "is_json x" by (auto simp: list_all_iff)
    with JObj Some show ?thesis by simp
  qed
qed simp_all

lemma is_json_opt_index0:
  "v = JUndefined \<or> is_json v \<Longrightarrow> opt_index0 v = JUndefined \<or> is_json (opt_index0 v)"
proof (cases v)
  case (JArr xs)
  assume "v = JUndefined \<or> is_json v"
  with JArr show ?thesis by (cases xs) (simp_all add: opt_index0_def)
next
  case (JStr s)
  then show ?thesis by (cases s) (simp_all add: opt_index0_def)
next
  case (JObj kvs)
  assume "v = JUndefined \<or> is_json v"
  with JObj have a: "list_all (\<lambda>kv. is_json (snd kv)) kvs" by simp
  show ?thesis
  proof (cases "map_of kvs (str ''0'')")
    case None
    with JObj show ?thesis by (simp add: opt_index0_def)
  next
    case (Some x)
    then have "(str ''0'', x) \<in> set kvs" by (rule map_of_SomeD)
    with a have "is_json x" by (auto simp: list_all_iff)
    with JObj Some show ?thesis by (simp add: opt_index0_def)
  qed
qed (simp_all add: opt_index0_def)

lemma weather_result_fields:
  "weather_result data = Inr result \<Longrightarrow>
   result =
     JObj [(str ''city'', opt_prop data (str ''name'')),
           (str ''country'', opt_prop (opt_prop data (str ''sys'')) (str ''country'')),
           (str ''temp'', opt_prop (opt_prop data (str ''main'')) (str ''temp'')),
           (str ''feels_like'', opt_prop (opt_prop data (str ''main'')) (str ''feels_like'')),
           (str ''humidity'', opt_prop (opt_prop data (str ''main'')) (str ''humidity'')),
           (str ''description'',
            opt_prop (opt_index0 (opt_prop data (str ''weather''))) (str ''description'')),
           (str ''icon'', opt_prop (opt_index0 (opt_prop data (str ''weather''))) (str ''icon'')),
           (str ''raw'', data)]"
  by (auto simp: weather_result_def bind_err_def split: sum.splits dest!: get_prop_opt_prop)

lemma weather_result_wire:
  assumes "is_json data" and "weather_result data = Inr result"
  shows "json_wire result =
     JObj (filter (\<lambda>kv. snd kv \<noteq> JUndefined)
       [(str ''city'', opt_prop data (str ''name'')),
        (str ''country'', opt_prop (opt_prop data (str ''sys'')) (str ''country'')),
        (str ''temp'', opt_prop (opt_prop data (str ''main'')) (str ''temp'')),
        (str ''feels_like'', opt_prop (opt_prop data (str ''main'')) (str ''feels_like'')),
        (str ''humidity'', opt_prop (opt_prop data (str ''main'')) (str ''humidity'')),
        (str ''description'',
         opt_prop (opt_index0 (opt_prop data (str ''weather''))) (str ''description'')),
        (str ''icon'', opt_prop (opt_index0 (opt_prop data (str ''weather''))) (str ''icon'')),
        (str ''raw'', data)])"
proof -
  have d: "data = JUndefined \<or> is_json data"
    using assms(1) by simp
  note p = is_json_opt_prop [OF d]
  note w = is_json_opt_index0 [OF p [of "str ''weather''"]]
  have j: "json_wire (opt_prop data (str ''name'')) = opt_prop data (str ''name'')"
    "json_wire (opt_prop (opt_prop data (str ''sys'')) (str ''country'')) =
       opt_prop (opt_prop data (str ''sys'')) (str ''country'')"
    "json_wire (opt_prop (opt_prop data (str ''main'')) k) = opt_prop (opt_prop data (str ''main'')) k"
    "json_wire (opt_prop (opt_index0 (opt_prop data (str ''weather''))) k) =
       opt_prop (opt_index0 (opt_prop data (str ''weather''))) k"
    "json_wire data = data" for k
    using p is_json_opt_prop [OF p] is_json_opt_prop [OF w] assms(1)
    by (simp_all add: json_wire_field json_wire_is_json)
  show ?thesis
    unfolding weather_result_fields [OF assms(2)]
    by (simp only: json_wire.simps list.map fst_conv snd_conv j)
qed

lemma weather_status_200:
  assumes "\<forall>c r. fetch E c = Inr r \<longrightarrow> (ok r \<longleftrightarrow> 200 \<le> http_status r \<and> http_status r < 300)"
    and "status (fst (weather E req)) = 200"
  shows "\<exists>call r data result.
           snd (weather E req) = [call] \<and> fetch E call = Inr r \<and> read_json r = Inr data \<and>
           weather_result data = Inr result \<and> fst (weather E req) = reply 200 result"
proof (cases "get_prop (body req) (str ''city'')")
  case (Inl e)
  with assms(2) show ?thesis by (simp add: weather_def weather_try_def status_reply)
next
  case city: (Inr city)
  show ?thesis
  proof (cases "call_trim city")
    case (Inl e)
    with assms(2) city show ?thesis
      by (cases "truthy city") (simp_all add: weather_def weather_try_def status_reply)
  next
    case trimmed: (Inr trimmed)
    show ?thesis
    proof (cases "\<not> truthy city \<or> trimmed = [] \<or> WEATHER_API_KEY E = None \<or>
                  WEATHER_API_KEY E = Some []")
      case True
      with assms(2) city trimmed have False
        by (auto simp: weather_def weather_try_def status_reply
              split: option.splits if_splits)
      then show ?thesis ..
    next
      case False
      then obtain key where key: "WEATHER_API_KEY E = Some key" "key \<noteq> []" "truthy city"
        "trimmed \<noteq> []"
        by (cases "WEATHER_API_KEY E") auto
      show ?thesis
      proof (cases "encodeURIComponent E trimmed")
        case (Inl e)
        with assms(2) city trimmed key show ?thesis
          by (simp add: weather_def weather_try_def status_reply)
      next
        case q: (Inr q)
        let ?call = "Fetch (weather_url q key) (str ''GET'') [] JUndefined"
        show ?thesis
        proof (cases "fetch E ?call")
          case (Inl e)
          with assms(2) city trimmed key q show ?thesis
            by (simp add: weather_def weather_try_def status_reply)
        next
          case resp: (Inr response)
          show ?thesis
          proof (cases "read_json response")
            case (Inl e)
            with assms(2) city trimmed key q resp show ?thesis
              by (simp add: weather_def weather_try_def status_reply)
          next
            case data: (Inr data)
            have okr: "ok response \<longleftrightarrow>
                       200 \<le> http_status response \<and> http_status response < 300"
              using assms(1) resp by blast
            show ?thesis
            proof (cases "ok response")
              case False
              with okr have "http_status response \<noteq> 200" by auto
              with False assms(2) city trimmed key q resp data show ?thesis
                by (cases "get_prop data (str ''message'')")
                   (simp_all add: weather_def weather_try_def status_reply bind_err_def)
            next
              case True
              with assms(2) city trimmed key q resp data show ?thesis
                by (cases "weather_result data")
                   (auto simp: weather_def weather_try_def status_reply bind_err_def)
            qed
          qed
        qed
      qed
    qed
  qed
qed

lemma example_weather_try:
  "weather_try example_env example_weather_request =
     (bind_err (weather_result example_weather_data) (\<lambda>result. Inr (reply 200 result)),
      [Fetch (weather_url (str ''Colombo'') (str ''key'')) (str ''GET'') [] JUndefined])"
proof -
  have t: "trim (str ''Colombo'') = str ''Colombo''"
    by (simp add: trim_def str_def isWhiteSpace_def)
  have ne: "str ''Colombo'' \<noteq> []" "str ''key'' \<noteq> []"
    by (simp_all add: str_def)
  show ?thesis
    using t ne
    by (simp add: weather_try_def example_env_def example_weather_request_def
          example_fetch_response_def Let_def)
qed

lemma weather_result_object: "\<exists>result. weather_result (JObj kvs) = Inr result"
  by (simp add: weather_result_def bind_err_def)

lemma example_weather_answer:
  "\<exists>result. weather_result example_weather_data = Inr result \<and>
            weather example_env example_weather_request =
              (reply 200 result,
               [Fetch (weather_url (str ''Colombo'') (str ''key'')) (str ''GET'') [] JUndefined])"
proof -
  obtain result where r: "weather_result example_weather_data = Inr result"
    using weather_result_object unfolding example_weather_data_def by blast
  show ?thesis
    by (simp add: weather_def example_weather_try r bind_err_def)
qed

lemma example_weather_data_json: "is_json example_weather_data"
  by (simp add: example_weather_data_def str_def)

lemma example_weather_data_fields:
  "opt_prop example_weather_data (str ''name'') = JStr (str ''Colombo'')"
  "opt_prop example_weather_data (str ''sys'') = JObj [(str ''country'', JStr (str ''LK''))]"
  "opt_prop example_weather_data (str ''main'') =
     JObj [(str ''temp'', JNum 30), (str ''feels_like'', JNum 33), (str ''humidity'', JNum 70)]"
  "opt_prop example_weather_data (str ''weather'') =
     JArr [JObj [(str ''description'', JStr (str ''clear sky'')),
                 (str ''icon'', JStr (str ''01d''))]]"
  by (simp_all add: example_weather_data_def str_def)

lemma example_weather_keys:
  "str ''feels_like'' \<noteq> str ''temp''" "str ''humidity'' \<noteq> str ''feels_like''"
  "str ''humidity'' \<noteq> str ''temp''" "str ''icon'' \<noteq> str ''description''"
  by (simp_all add: str_def)

lemma example_weather_body:
  "fst (weather example_env example_weather_request) =
     \<lparr>status = 200,
      json_body =
        JObj [(str ''city'', JStr (str ''Colombo'')),
              (str ''country'', JStr (str ''LK'')),
              (str ''temp'', JNum 30),
              (str ''feels_like'', JNum 33),
              (str ''humidity'', JNum 70),
              (str ''description'', JStr (str ''clear sky'')),
              (str ''icon'', JStr (str ''01d'')),
              (str ''raw'', example_weather_data)]\<rparr>"
proof -
  obtain result where r: "weather_result example_weather_data = Inr result"
    "weather example_env example_weather_request =
       (reply 200 result,
        [Fetch (weather_url (str ''Colombo'') (str ''key'')) (str ''GET'') [] JUndefined])"
    using example_weather_answer by blast
  have d: "example_weather_data \<noteq> JUndefined"
    by (simp add: example_weather_data_def)
  show ?thesis
    using d
    by (simp add: r(2) reply_def weather_result_wire [OF example_weather_data_json r(1)]
          example_weather_data_fields opt_index0_def example_weather_keys)
qed

subsection \<open>The state after a send\<close>

lemma sendMessage_state:
  assumes "\<not> ((trim (input st) = [] \<and> imageFile st = None) \<or> loading st)"
    and "sent_bot_message B st = Inr m"
  shows "fst (sendMessage B st) =
           st\<lparr>chats :=
                map (\<lambda>c. if chat_id c = chat_id (activeChat B st)
                          then c\<lparr>messages := messages c @ [user_message (userText st), m],
                                 title := newTitle c (userText st)\<rparr>
                          else c)
                    (chats st),
              input := [], imageFile := None, imagePreview := None, loading := False\<rparr>"
  using assms
  by (auto simp: sendMessage_def sendMessage_begin_def sendMessage_end_def
        add_user_message_def add_bot_message_def o_def cong: if_cong)

lemma sendMessage_state_thrown:
  assumes "\<not> ((trim (input st) = [] \<and> imageFile st = None) \<or> loading st)"
    and "sent_bot_message B st = Inl err"
  shows "fst (sendMessage B st) =
           st\<lparr>chats :=
                map (\<lambda>c. if chat_id c = chat_id (activeChat B st)
                          then c\<lparr>messages := messages c @ [user_message (userText st)],
                                 title := newTitle c (userText st)\<rparr>
                          else c)
                    (chats st),
              input := [], imageFile := None, imagePreview := None, loading := False\<rparr>"
    and "snd (sendMessage B st) = send_effects B st @ [RenderError err]"
  using assms
  by (auto simp: sendMessage_def sendMessage_begin_def sendMessage_end_def
        add_user_message_def o_def cong: if_cong)

lemma sendMessage_activeChat:
  assumes "\<not> ((trim (input st) = [] \<and> imageFile st = None) \<or> loading st)"
    and "chats st \<noteq> []"
    and "sent_bot_message B st = Inr m"
  shows "activeChat B (fst (sendMessage B st)) =
           (activeChat B st)
             \<lparr>messages := messages (activeChat B st) @ [user_message (userText st), m],
              title := newTitle (activeChat B st) (userText st)\<rparr>"
proof -
  let ?g = "\<lambda>c. if chat_id c = chat_id (activeChat B st)
                          then c\<lparr>messages := messages c @ [user_message (userText st), m],
                                 title := newTitle c (userText st)\<rparr>
                          else c"
  have "activeChat B (fst (sendMessage B st)) = ?g (activeChat B st)"
    by (rule activeChat_map [OF _ assms(2)]) (simp_all add: sendMessage_state [OF assms(1,3)])
  then show ?thesis by simp
qed

lemma sendMessage_activeChat_thrown:
  assumes "\<not> ((trim (input st) = [] \<and> imageFile st = None) \<or> loading st)"
    and "chats st \<noteq> []"
    and "sent_bot_message B st = Inl err"
  shows "activeChat B (fst (sendMessage B st)) =
           (activeChat B st)
             \<lparr>messages := messages (activeChat B st) @ [user_message (userText st)],
              title := newTitle (activeChat B st) (userText st)\<rparr>"
proof -
  let ?g = "\<lambda>c. if chat_id c = chat_id (activeChat B st)
                          then c\<lparr>messages := messages c @ [user_message (userText st)],
                                 title := newTitle c (userText st)\<rparr>
                          else c"
  have "activeChat B (fst (sendMessage B st)) = ?g (activeChat B st)"
    by (rule activeChat_map [OF _ assms(2)])
       (simp_all add: sendMessage_state_thrown(1) [OF assms(1,3)])
  then show ?thesis by simp
qed

lemma sendMessage_title:
  assumes "\<not> ((trim (input st) = [] \<and> imageFile st = None) \<or> loading st)"
    and "chats st \<noteq> []"
  shows "title (activeChat B (fst (sendMessage B st))) =
           newTitle (activeChat B st) (userText st)"
proof (cases "sent_bot_message B st")
  case (Inl err)
  then show ?thesis by (simp add: sendMessage_activeChat_thrown [OF assms])
next
  case (Inr m)
  then show ?thesis by (simp add: sendMessage_activeChat [OF assms])
qed








lemma example_message_length: "length example_message = 55"
  by (simp add: example_message_def str_def)

lemma example_message_trim: "trim example_message = example_message"
  by (simp add: example_message_def trim_def str_def isWhiteSpace_def)

lemma example_message_runs: "replace_ws_runs example_message = example_message"
  by (simp add: example_message_def str_def isWhiteSpace_def)

lemma example_message_take:
  "take 40 example_message @ str ''...'' = str ''Explain recursion in simple terms for a ...''"
  by (simp add: example_message_def str_def)

lemma example_state_userText: "userText example_state = example_message"
  by (simp add: userText_def example_state_def example_message_trim)

lemma example_state_sendable:
  "\<not> ((trim (input example_state) = [] \<and> imageFile example_state = None) \<or>
      loading example_state)"
  using example_message_length
  by (auto simp: example_state_def example_message_trim)

lemma example_state_active:
  "activeChat offline_browser example_state = hd example_chats"
  by (simp add: activeChat_def example_state_def example_chats_def)

section \<open>The claims\<close>

subsection \<open>Image generation and the session credential\<close>

text \<open>
  Claim C1 says that \<open>POST /api/image/generate\<close> requires the session credential: a
  request without a valid \<open>Authorization: Bearer\<close> header fails with an auth error and
  no upstream image-generation call is made. The route is registered without
  \<open>authMiddleware\<close>: a request with no \<open>Authorization\<close> header and the prompt
  \<open>a cat\<close> makes the upstream call and is answered with status 200 or 500, never 401;
  and no request is answered differently for its \<open>Authorization\<close> header.
\<close>

theorem image_generate_without_credential:
  "snd (post_api_image_generate E
          \<lparr>authorization = None, body = JObj [(str ''prompt'', JStr (str ''a cat''))]\<rparr>) =
     [image_call E (JStr (str ''a cat''))] \<and>
   (status (fst (post_api_image_generate E
          \<lparr>authorization = None, body = JObj [(str ''prompt'', JStr (str ''a cat''))]\<rparr>)) = 200 \<or>
    status (fst (post_api_image_generate E
          \<lparr>authorization = None, body = JObj [(str ''prompt'', JStr (str ''a cat''))]\<rparr>)) = 500) \<and>
   post_api_image_generate E (req\<lparr>authorization := a\<rparr>) = post_api_image_generate E req"
proof -
  have t: "trim (str ''a cat'') \<noteq> []"
    by (simp add: trim_def str_def isWhiteSpace_def)
  have s: "str ''a cat'' \<noteq> []"
    by (simp add: str_def)
  have c: "snd (post_api_image_generate E
          \<lparr>authorization = None, body = JObj [(str ''prompt'', JStr (str ''a cat''))]\<rparr>) =
     [image_call E (JStr (str ''a cat''))] \<and>
   (status (fst (post_api_image_generate E
          \<lparr>authorization = None, body = JObj [(str ''prompt'', JStr (str ''a cat''))]\<rparr>)) = 200 \<or>
    status (fst (post_api_image_generate E
          \<lparr>authorization = None, body = JObj [(str ''prompt'', JStr (str ''a cat''))]\<rparr>)) = 500)"
    using t s
    by (simp add: post_api_image_generate_def image_generate_def image_generate_try_def
          bind_err_def status_reply split: sum.splits)
  have h: "post_api_image_generate E (req\<lparr>authorization := a\<rparr>) = post_api_image_generate E req"
    by (simp add: post_api_image_generate_def image_generate_def image_generate_try_def)
  from c h show ?thesis
    by (intro conjI) (erule conjunct1, erule conjunct2, assumption)
qed

subsection \<open>Login failures\<close>

text \<open>
  Claim C3: a login with an email that is not in the user store and a login with a stored
  email but a password whose hash does not match are answered with the same response,
  status 400 and the error message \<open>Invalid email or password\<close>.
\<close>

theorem login_failures_indistinguishable:
  assumes "get_prop (body req1) (str ''email'') = Inr email1"
    and "get_prop (body req1) (str ''password'') = Inr password1"
    and "User_findOne E email1 = Inr None"
    and "get_prop (body req2) (str ''email'') = Inr email2"
    and "get_prop (body req2) (str ''password'') = Inr password2"
    and "User_findOne E email2 = Inr (Some u)"
    and "bcrypt_compare E password2 (user_password u) = Inr False"
  shows "login E req1 = login E req2 \<and>
         login E req1 = reply 400 (error_body (JStr (str ''Invalid email or password'')))"
  using assms by (simp add: login_def login_try_def)

text \<open>The two failures in the example world: an unknown email, and a wrong password.\<close>

theorem login_failures_indistinguishable_witness:
  "login example_env
     \<lparr>authorization = None,
      body = JObj [(str ''email'', JStr (str ''bob@example.org'')),
                   (str ''password'', JStr (str ''secret''))]\<rparr> =
   login example_env
     \<lparr>authorization = None,
      body = JObj [(str ''email'', JStr (str ''ann@example.org'')),
                   (str ''password'', JStr (str ''guess''))]\<rparr> \<and>
   login example_env
     \<lparr>authorization = None,
      body = JObj [(str ''email'', JStr (str ''bob@example.org'')),
                   (str ''password'', JStr (str ''secret''))]\<rparr> =
   reply 400 (error_body (JStr (str ''Invalid email or password'')))"
proof (rule login_failures_indistinguishable
    [where ?email1.0 = "JStr (str ''bob@example.org'')" and ?password1.0 = "JStr (str ''secret'')"
       and ?email2.0 = "JStr (str ''ann@example.org'')" and ?password2.0 = "JStr (str ''guess'')"
       and u = example_user])
  show "get_prop (body \<lparr>authorization = None,
      body = JObj [(str ''email'', JStr (str ''bob@example.org'')),
                   (str ''password'', JStr (str ''secret''))]\<rparr>) (str ''email'') = Inr (JStr (str ''bob@example.org''))"
    by simp
  show "get_prop (body \<lparr>authorization = None,
      body = JObj [(str ''email'', JStr (str ''bob@example.org'')),
                   (str ''password'', JStr (str ''secret''))]\<rparr>) (str ''password'') = Inr (JStr (str ''secret''))"
    by (simp add: str_def)
  show "User_findOne example_env (JStr (str ''bob@example.org'')) = Inr None"
    by (simp add: example_env_def str_def)
  show "get_prop (body \<lparr>authorization = None,
      body = JObj [(str ''email'', JStr (str ''ann@example.org'')),
                   (str ''password'', JStr (str ''guess''))]\<rparr>) (str ''email'') = Inr (JStr (str ''ann@example.org''))"
    by simp
  show "get_prop (body \<lparr>authorization = None,
      body = JObj [(str ''email'', JStr (str ''ann@example.org'')),
                   (str ''password'', JStr (str ''guess''))]\<rparr>) (str ''password'') = Inr (JStr (str ''guess''))"
    by (simp add: str_def)
  show "User_findOne example_env (JStr (str ''ann@example.org'')) = Inr (Some example_user)"
    by (simp add: example_env_def)
  show "bcrypt_compare example_env (JStr (str ''guess'')) (user_password example_user) = Inr False"
    by (simp add: example_env_def str_def)
qed

subsection \<open>Weather\<close>

text \<open>
  Claim C5: a request to \<open>/api/tools/weather\<close> whose city is missing, empty or only white
  space is answered with status 400 and an error body, and no upstream call is made.
\<close>

theorem weather_blank_city_rejected:
  assumes "get_prop (body req) (str ''city'') = Inr city"
    and "city = JUndefined \<or> city = JNull \<or>
         (\<exists>s. city = JStr s \<and> (\<forall>c\<in>set s. isWhiteSpace c))"
  shows "weather E req = (reply 400 (error_body (JStr (str ''City is required''))), [])"
  using assms by (auto simp: weather_def weather_try_def trim_all_ws)

text \<open>A city of three spaces.\<close>

theorem weather_blank_city_rejected_witness:
  "weather example_env
     \<lparr>authorization = None, body = JObj [(str ''city'', JStr (str ''   ''))]\<rparr> =
   (reply 400 (error_body (JStr (str ''City is required''))), [])"
  by (rule weather_blank_city_rejected [where city = "JStr (str ''   '')"])
     (simp_all add: str_def isWhiteSpace_def)

subsection \<open>The chat collection\<close>

text \<open>
  Claim C7 is stated for every chat collection. In a collection in which a second chat
  has the id of the active one, \<open>clearCurrentChat\<close> resets that chat too: the first chat
  is the active one, the second is another chat, and it is changed.
\<close>

theorem clearCurrentChat_twin_counterexample:
  "activeChat offline_browser twin_state = chats twin_state ! 0 \<and>
   chats twin_state ! 1 \<noteq> activeChat offline_browser twin_state \<and>
   messages (chats twin_state ! 1) =
     [greeting,
      \<lparr>sender = str ''user'', msg_text = JStr (str ''two''), msg_provider = JUndefined,
       imageUrl = JUndefined\<rparr>] \<and>
   title (chats (clearCurrentChat offline_browser twin_state) ! 1) = str ''New chat'' \<and>
   messages (chats (clearCurrentChat offline_browser twin_state) ! 1) = [greeting] \<and>
   chats (clearCurrentChat offline_browser twin_state) ! 1 \<noteq> chats twin_state ! 1"
  by (simp add: clearCurrentChat_def activeChat_def twin_state_def user_message_def str_def)

text \<open>
  Claim C7, amended: for every chat collection that is not empty and whose chat ids are
  pairwise distinct, \<open>clearCurrentChat\<close> results in the active chat having exactly one
  message, the initial bot greeting, and the title \<open>New chat\<close>, while the active chat
  stays in the collection at its position and every other chat in the collection is
  unchanged.
\<close>

theorem clearCurrentChat_resets_only_active:
  assumes "chats st \<noteq> []" and "distinct (map chat_id (chats st))"
  shows "\<exists>i<length (chats st).
           activeChat B st = chats st ! i \<and>
           length (chats (clearCurrentChat B st)) = length (chats st) \<and>
           chats (clearCurrentChat B st) ! i =
             (chats st ! i)
               \<lparr>title := str ''New chat'',
                messages :=
                  [\<lparr>sender = str ''bot'',
                    msg_text = JStr (str ''Hi! I'm your Falcon AI '' @ [0xD83E, 0xDD16] @
                                     str ''. Ask me anything!''),
                    msg_provider = JStr (str ''groq''), imageUrl = JUndefined\<rparr>]\<rparr> \<and>
           activeChat B (clearCurrentChat B st) = chats (clearCurrentChat B st) ! i \<and>
           activeChatId (clearCurrentChat B st) = activeChatId st \<and>
           (\<forall>j<length (chats st). j \<noteq> i \<longrightarrow> chats (clearCurrentChat B st) ! j = chats st ! j)"
proof -
  let ?reset = "\<lambda>c::chat. c\<lparr>title := str ''New chat'', messages := [greeting]\<rparr>"
  let ?g = "\<lambda>c. if chat_id c = chat_id (activeChat B st) then ?reset c else c"
  obtain i where i: "i < length (chats st)" "activeChat B st = chats st ! i"
    using activeChat_index[OF assms(1)] by blast
  have cs: "chats (clearCurrentChat B st) = (chats st)[i := ?reset (chats st ! i)]"
    using map_at_distinct_id[OF assms(2) i(1), of ?reset] i(2)
    by (simp add: clearCurrentChat_def)
  have "activeChat B (clearCurrentChat B st) = ?g (activeChat B st)"
    by (rule activeChat_map[OF _ assms(1)]) (simp_all add: clearCurrentChat_def)
  then have act: "activeChat B (clearCurrentChat B st) = ?reset (chats st ! i)"
    using i(2) by simp
  have aid: "activeChatId (clearCurrentChat B st) = activeChatId st"
    by (simp add: clearCurrentChat_def)
  have g: "greeting =
             \<lparr>sender = str ''bot'',
              msg_text = JStr (str ''Hi! I'm your Falcon AI '' @ [0xD83E, 0xDD16] @
                               str ''. Ask me anything!''),
              msg_provider = JStr (str ''groq''), imageUrl = JUndefined\<rparr>"
    by (simp add: greeting_def greeting_text_def)
  show ?thesis
    using i cs act aid unfolding g by (intro exI[of _ i]) (simp add: nth_list_update)
qed

text \<open>
  Clearing the second chat of the example collection, which has three messages: the
  collection afterwards.
\<close>

theorem clearCurrentChat_resets_only_active_witness:
  "chats (clearCurrentChat offline_browser
            (example_state\<lparr>activeChatId := Some (str ''1700000000002'')\<rparr>)) =
     [\<lparr>chat_id = str ''1700000000001'', title = str ''New chat'', createdAt = 1700000000001,
       messages =
         [\<lparr>sender = str ''bot'',
           msg_text = JStr (str ''Hi! I'm your Falcon AI '' @ [0xD83E, 0xDD16] @
                            str ''. Ask me anything!''),
           msg_provider = JStr (str ''groq''), imageUrl = JUndefined\<rparr>]\<rparr>,
      \<lparr>chat_id = str ''1700000000002'', title = str ''New chat'', createdAt = 1700000000002,
       messages =
         [\<lparr>sender = str ''bot'',
           msg_text = JStr (str ''Hi! I'm your Falcon AI '' @ [0xD83E, 0xDD16] @
                            str ''. Ask me anything!''),
           msg_provider = JStr (str ''groq''), imageUrl = JUndefined\<rparr>]\<rparr>]"
proof -
  let ?S = "example_state\<lparr>activeChatId := Some (str ''1700000000002'')\<rparr>"
  let ?C = "chats (clearCurrentChat offline_browser ?S)"
  have h1: "chats ?S \<noteq> []"
    by (simp add: example_state_def example_chats_def)
  have h2: "distinct (map chat_id (chats ?S))"
    using example_chats_distinct by (simp add: example_state_def)
  have n: "str ''1700000000001'' \<noteq> str ''1700000000002''"
    by (simp add: str_def)
  have a: "activeChat offline_browser ?S = example_chats ! 1"
    using n by (simp add: activeChat_def example_state_def example_chats_def)
  have l: "length (chats ?S) = 2" "chats ?S ! 0 = example_chats ! 0"
    "chats ?S ! 1 = example_chats ! 1" "example_chats ! 0 \<noteq> example_chats ! 1"
    using n by (simp_all add: example_state_def example_chats_def)
  obtain i where i: "i < length (chats ?S)" "activeChat offline_browser ?S = chats ?S ! i"
    "length ?C = length (chats ?S)"
    "?C ! i =
       (chats ?S ! i)
         \<lparr>title := str ''New chat'',
          messages :=
            [\<lparr>sender = str ''bot'',
              msg_text = JStr (str ''Hi! I'm your Falcon AI '' @ [0xD83E, 0xDD16] @
                               str ''. Ask me anything!''),
              msg_provider = JStr (str ''groq''), imageUrl = JUndefined\<rparr>]\<rparr>"
    "\<forall>j<length (chats ?S). j \<noteq> i \<longrightarrow> ?C ! j = chats ?S ! j"
    using clearCurrentChat_resets_only_active [OF h1 h2, of offline_browser] by blast
  have i1: "i = 1"
  proof (rule ccontr)
    assume "i \<noteq> 1"
    with i(1) l(1) have "i = 0" by simp
    with i(2) a l(2,4) show False by simp
  qed
  have c0: "?C ! 0 = example_chats ! 0"
    using i(5) i1 l(1,2) by simp
  have c1: "?C ! 1 =
       (example_chats ! 1)
         \<lparr>title := str ''New chat'',
          messages :=
            [\<lparr>sender = str ''bot'',
              msg_text = JStr (str ''Hi! I'm your Falcon AI '' @ [0xD83E, 0xDD16] @
                               str ''. Ask me anything!''),
              msg_provider = JStr (str ''groq''), imageUrl = JUndefined\<rparr>]\<rparr>"
    using i(4) i1 l(3) by simp
  have "?C = [?C ! 0, ?C ! 1]"
    using i(3) l(1) by (cases ?C) (auto simp: length_Suc_conv)
  then have "?C = [example_chats ! 0,
       (example_chats ! 1)
         \<lparr>title := str ''New chat'',
          messages :=
            [\<lparr>sender = str ''bot'',
              msg_text = JStr (str ''Hi! I'm your Falcon AI '' @ [0xD83E, 0xDD16] @
                               str ''. Ask me anything!''),
              msg_provider = JStr (str ''groq''), imageUrl = JUndefined\<rparr>]\<rparr>]"
    by (simp only: c0 c1)
  then show ?thesis
    by (simp add: example_chats_def greeting_def greeting_text_def)
qed

text \<open>
  Claim C10: when the input is empty or only white space and no image is attached, or a
  request is still outstanding (\<open>loading\<close>), \<open>sendMessage\<close> leaves the whole state, with
  the chat collection, the active chat id and every message list, as it was, and issues
  no request.
\<close>

theorem sendMessage_guard_no_effect:
  assumes "(trim (input st) = [] \<and> imageFile st = None) \<or> loading st"
  shows "sendMessage B st = (st, [])"
  using assms by (simp add: sendMessage_def)

text \<open>A blank input, and a send while a request is outstanding.\<close>

theorem sendMessage_guard_no_effect_witness:
  "sendMessage offline_browser (example_state\<lparr>input := str ''  ''\<rparr>) =
     (example_state\<lparr>input := str ''  ''\<rparr>, []) \<and>
   sendMessage offline_browser (example_state\<lparr>loading := True\<rparr>) =
     (example_state\<lparr>loading := True\<rparr>, [])"
proof
  have "trim (input (example_state\<lparr>input := str ''  ''\<rparr>)) = []"
    by (simp add: trim_def str_def isWhiteSpace_def)
  moreover have "imageFile (example_state\<lparr>input := str ''  ''\<rparr>) = None"
    by (simp add: example_state_def)
  ultimately show "sendMessage offline_browser (example_state\<lparr>input := str ''  ''\<rparr>) =
     (example_state\<lparr>input := str ''  ''\<rparr>, [])"
    by (intro sendMessage_guard_no_effect) simp
  show "sendMessage offline_browser (example_state\<lparr>loading := True\<rparr>) =
     (example_state\<lparr>loading := True\<rparr>, [])"
    by (rule sendMessage_guard_no_effect) simp
qed

subsection \<open>The chat endpoint\<close>



text \<open>
  Claim C8 says that the endpoint forwards to the selected provider a two-element
  message list. For the provider \<open>gemini\<close> and the message \<open>Hello\<close>, the one call made
  hands Gemini a single string, the two messages flattened into two lines.
\<close>

theorem chat_single_message_gemini_counterexample:
  "snd (post_api_chat example_env example_gemini_request) =
     [GeminiGenerateContent (str ''gemini-2.0-flash'')
        (str ''SYSTEM: You are a friendly AI assistant helping an IT undergraduate. Explain things simply with examples.'' @
         [0x0A] @ str ''USER: Hello'')]"
proof -
  have t: "str ''Hello'' \<noteq> []"
    by (simp add: str_def)
  have n: "\<not> nonempty_array JUndefined"
    by simp
  have u: "str ''USER: '' @ str ''Hello'' = str ''USER: Hello''"
    by (simp add: str_def)
  show ?thesis
    using single_message_calls(2)
      [OF example_gemini_request_auth example_gemini_request_fields(1) t
          example_gemini_request_fields(2) n example_gemini_request_fields(3)]
      single_message_gemini [OF example_env_toUpperCase, of "str ''Hello''"]
    by (simp add: u)
qed

text \<open>
  Claim C8, amended: for every authenticated chat request that supplies a single
  message text and no non-empty \<open>messages\<close> array, the endpoint builds a two-element
  message list, one system message carrying the default system prompt followed by one
  user message carrying the supplied text, and makes exactly one call to the selected
  provider with it. Groq (also for an omitted or unknown provider id) and DeepSeek
  receive the list itself; Gemini receives the single prompt of the two lines
  \<open>SYSTEM: \<close> default system prompt and \<open>USER: \<close> text, and HuggingFace the single input
  of the two lines \<open>system: \<close> default system prompt and \<open>user: \<close> text, the lines joined
  by a newline. (\<open>toUpperCase\<close> is a parameter: it is to map the two role names to
  \<open>SYSTEM\<close> and \<open>USER\<close>.)
\<close>

theorem chat_single_message_list:
  assumes "authMiddleware E req = Inr decoded"
    and "get_prop (body req) (str ''message'') = Inr (JStr t)"
    and "t \<noteq> []"
    and "get_prop (body req) (str ''messages'') = Inr msgs"
    and "\<not> nonempty_array msgs"
    and "get_prop (body req) (str ''provider'') = Inr p"
    and "toUpperCase E (str ''system'') = str ''SYSTEM''"
    and "toUpperCase E (str ''user'') = str ''USER''"
  shows "chatMessages (JStr t) msgs =
           [JObj [(str ''role'', JStr (str ''system'')),
                  (str ''content'',
                   JStr (str ''You are a friendly AI assistant helping an IT undergraduate. Explain things simply with examples.''))],
            JObj [(str ''role'', JStr (str ''user'')), (str ''content'', JStr t)]] \<and>
         snd (post_api_chat E req) =
           [if p = JStr (str ''gemini'') then
              GeminiGenerateContent (str ''gemini-2.0-flash'')
                (str ''SYSTEM: You are a friendly AI assistant helping an IT undergraduate. Explain things simply with examples.'' @
                 [0x0A] @ str ''USER: '' @ t)
            else if p = JStr (str ''deepseek'') then
              DeepseekChatCompletionsCreate (str ''deepseek-chat'')
                (JArr [JObj [(str ''role'', JStr (str ''system'')),
                             (str ''content'',
                              JStr (str ''You are a friendly AI assistant helping an IT undergraduate. Explain things simply with examples.''))],
                       JObj [(str ''role'', JStr (str ''user'')), (str ''content'', JStr t)]])
                500 (7 / 10)
            else if p = JStr (str ''huggingface'') then
              Fetch (str ''https://api-inference.huggingface.co/models/facebook/blenderbot-400M-distill'')
                (str ''POST'')
                [(str ''Authorization'',
                  str ''Bearer '' @
                  (case HF_API_KEY E of None \<Rightarrow> str ''undefined'' | Some k \<Rightarrow> k)),
                 (str ''Content-Type'', str ''application/json'')]
                (JObj [(str ''inputs'',
                        JStr (str ''system: You are a friendly AI assistant helping an IT undergraduate. Explain things simply with examples.'' @
                              [0x0A] @ str ''user: '' @ t))])
            else
              GroqChatCompletionsCreate (str ''llama-3.1-8b-instant'')
                (JArr [JObj [(str ''role'', JStr (str ''system'')),
                             (str ''content'',
                              JStr (str ''You are a friendly AI assistant helping an IT undergraduate. Explain things simply with examples.''))],
                       JObj [(str ''role'', JStr (str ''user'')), (str ''content'', JStr t)]])
                500 (7 / 10)]"
proof -
  let ?two = "[chat_message (str ''system'') (JStr default_system_prompt),
               chat_message (str ''user'') (JStr t)]"
  note s = single_message_calls [OF assms(1-6)]
  have two: "?two =
           [JObj [(str ''role'', JStr (str ''system'')),
                  (str ''content'',
                   JStr (str ''You are a friendly AI assistant helping an IT undergraduate. Explain things simply with examples.''))],
            JObj [(str ''role'', JStr (str ''user'')), (str ''content'', JStr t)]]"
    by (simp add: chat_message_def default_system_prompt_def)
  have n: "str ''deepseek'' \<noteq> str ''gemini''"
    by (simp add: str_def)
  consider (gemini) "p = JStr (str ''gemini'')" | (deepseek) "p = JStr (str ''deepseek'')"
    | (huggingface) "p = JStr (str ''huggingface'')"
    | (groq) "p \<noteq> JStr (str ''gemini'')" "p \<noteq> JStr (str ''deepseek'')"
        "p \<noteq> JStr (str ''huggingface'')"
    by blast
  then have "snd (post_api_chat E req) =
           [if p = JStr (str ''gemini'') then
              GeminiGenerateContent (str ''gemini-2.0-flash'')
                (str ''SYSTEM: You are a friendly AI assistant helping an IT undergraduate. Explain things simply with examples.'' @
                 [0x0A] @ str ''USER: '' @ t)
            else if p = JStr (str ''deepseek'') then
              DeepseekChatCompletionsCreate (str ''deepseek-chat'') (JArr ?two) 500 (7 / 10)
            else if p = JStr (str ''huggingface'') then
              Fetch (str ''https://api-inference.huggingface.co/models/facebook/blenderbot-400M-distill'')
                (str ''POST'')
                [(str ''Authorization'',
                  str ''Bearer '' @
                  (case HF_API_KEY E of None \<Rightarrow> str ''undefined'' | Some k \<Rightarrow> k)),
                 (str ''Content-Type'', str ''application/json'')]
                (JObj [(str ''inputs'',
                        JStr (str ''system: You are a friendly AI assistant helping an IT undergraduate. Explain things simply with examples.'' @
                              [0x0A] @ str ''user: '' @ t))])
            else
              GroqChatCompletionsCreate (str ''llama-3.1-8b-instant'') (JArr ?two) 500 (7 / 10)]"
  proof cases
    case gemini
    then show ?thesis
      by (simp add: s(2) single_message_gemini [OF assms(7,8)])
  next
    case deepseek
    then show ?thesis
      using n by (simp add: s(2) provider_dispatch_def Let_def)
  next
    case huggingface
    have "str ''huggingface'' \<noteq> str ''gemini''" "str ''huggingface'' \<noteq> str ''deepseek''"
      by (simp_all add: str_def)
    with huggingface show ?thesis
      by (simp add: s(2) single_message_huggingface)
  next
    case groq
    let ?prov = "if p = JUndefined then JStr (str ''groq'') else p"
    have "?prov \<noteq> JStr (str ''gemini'')" "?prov \<noteq> JStr (str ''deepseek'')"
      "?prov \<noteq> JStr (str ''huggingface'')"
      using groq provider_names_distinct by auto
    then have "snd (provider_dispatch E ?prov ?two (JStr t)) =
                 [GroqChatCompletionsCreate (str ''llama-3.1-8b-instant'') (JArr ?two) 500 (7 / 10)]"
      unfolding provider_dispatch_def by (simp add: Let_def)
    with groq show ?thesis
      by (simp add: s(2))
  qed
  with s(1) show ?thesis
    unfolding two by (intro conjI)
qed

text \<open>The message \<open>Hello\<close> sent to HuggingFace.\<close>

theorem chat_single_message_list_witness:
  "chatMessages (JStr (str ''Hello'')) JUndefined =
     [JObj [(str ''role'', JStr (str ''system'')),
            (str ''content'',
             JStr (str ''You are a friendly AI assistant helping an IT undergraduate. Explain things simply with examples.''))],
      JObj [(str ''role'', JStr (str ''user'')), (str ''content'', JStr (str ''Hello''))]] \<and>
   snd (post_api_chat example_env example_huggingface_request) =
     [Fetch (str ''https://api-inference.huggingface.co/models/facebook/blenderbot-400M-distill'')
        (str ''POST'')
        [(str ''Authorization'', str ''Bearer hf''),
         (str ''Content-Type'', str ''application/json'')]
        (JObj [(str ''inputs'',
                JStr (str ''system: You are a friendly AI assistant helping an IT undergraduate. Explain things simply with examples.'' @
                      [0x0A] @ str ''user: Hello''))])]"
proof -
  have t: "str ''Hello'' \<noteq> []"
    by (simp add: str_def)
  have n: "\<not> nonempty_array JUndefined"
    by simp
  have d: "str ''huggingface'' \<noteq> str ''gemini''" "str ''huggingface'' \<noteq> str ''deepseek''"
    by (simp_all add: str_def)
  have k: "HF_API_KEY example_env = Some (str ''hf'')"
    by (simp add: example_env_def)
  have u: "str ''user: '' @ str ''Hello'' = str ''user: Hello''"
    "str ''Bearer '' @ str ''hf'' = str ''Bearer hf''"
    by (simp_all add: str_def)
  note th = chat_single_message_list
      [OF example_huggingface_request_auth example_huggingface_request_fields(1) t
          example_huggingface_request_fields(2) n example_huggingface_request_fields(3)
          example_env_toUpperCase]
  have c: "snd (post_api_chat example_env example_huggingface_request) =
     [Fetch (str ''https://api-inference.huggingface.co/models/facebook/blenderbot-400M-distill'')
        (str ''POST'')
        [(str ''Authorization'', str ''Bearer hf''),
         (str ''Content-Type'', str ''application/json'')]
        (JObj [(str ''inputs'',
                JStr (str ''system: You are a friendly AI assistant helping an IT undergraduate. Explain things simply with examples.'' @
                      [0x0A] @ str ''user: Hello''))])]"
    using th [THEN conjunct2] d by (simp add: k u)
  from th [THEN conjunct1] c show ?thesis
    by (intro conjI)
qed

subsection \<open>The fields of a weather answer\<close>

text \<open>
  Claim C4 says that a successful weather lookup returns exactly the fields \<open>city\<close>,
  \<open>country\<close>, \<open>temp\<close>, \<open>feelsLike\<close>, \<open>humidity\<close>, \<open>description\<close> and \<open>icon\<close>. The lookup of
  Colombo in the example world succeeds, and the answer has a field \<open>raw\<close> and no field
  \<open>feelsLike\<close>.
\<close>

theorem weather_fields_counterexample:
  "status (fst (weather example_env example_weather_request)) = 200 \<and>
   object_keys (json_body (fst (weather example_env example_weather_request))) =
     [str ''city'', str ''country'', str ''temp'', str ''feels_like'', str ''humidity'',
      str ''description'', str ''icon'', str ''raw''] \<and>
   set (object_keys (json_body (fst (weather example_env example_weather_request)))) \<noteq>
     {str ''city'', str ''country'', str ''temp'', str ''feelsLike'', str ''humidity'',
      str ''description'', str ''icon''}"
proof -
  have k: "object_keys (json_body (fst (weather example_env example_weather_request))) =
     [str ''city'', str ''country'', str ''temp'', str ''feels_like'', str ''humidity'',
      str ''description'', str ''icon'', str ''raw'']"
    by (simp add: example_weather_body)
  have "str ''raw'' \<notin> {str ''city'', str ''country'', str ''temp'', str ''feelsLike'',
          str ''humidity'', str ''description'', str ''icon''}"
    by (simp add: str_def)
  moreover have "str ''raw'' \<in>
      set (object_keys (json_body (fst (weather example_env example_weather_request))))"
    unfolding k by simp
  ultimately have "set (object_keys (json_body (fst (weather example_env example_weather_request)))) \<noteq>
     {str ''city'', str ''country'', str ''temp'', str ''feelsLike'', str ''humidity'',
      str ''description'', str ''icon''}"
    by metis
  with k show ?thesis
    by (simp add: example_weather_body)
qed

text \<open>
  Claim C4, amended: the answer to a successful weather lookup (status 200; \<open>fetch\<close>
  reports \<open>ok\<close> exactly for the statuses 200 to 299 and parses JSON values) has the field
  \<open>raw\<close>, which carries the full upstream response, and, of the fields \<open>city\<close>, \<open>country\<close>,
  \<open>temp\<close>, \<open>feels_like\<close>, \<open>humidity\<close>, \<open>description\<close> and \<open>icon\<close>, in this order, those
  whose upstream value (\<open>name\<close>, \<open>sys.country\<close>, \<open>main.temp\<close>, \<open>main.feels_like\<close>,
  \<open>main.humidity\<close>, \<open>weather[0].description\<close>, \<open>weather[0].icon\<close>) is present, each
  carrying that value; it has no other field.
\<close>

theorem weather_success_fields:
  assumes "\<forall>c r. fetch E c = Inr r \<longrightarrow> (ok r \<longleftrightarrow> 200 \<le> http_status r \<and> http_status r < 300)"
    and "\<forall>c r d. fetch E c = Inr r \<longrightarrow> read_json r = Inr d \<longrightarrow> is_json d"
    and "status (fst (weather E req)) = 200"
  shows "\<exists>call r data.
           snd (weather E req) = [call] \<and> fetch E call = Inr r \<and> read_json r = Inr data \<and>
           json_body (fst (weather E req)) =
             JObj (filter (\<lambda>kv. snd kv \<noteq> JUndefined)
               [(str ''city'', opt_prop data (str ''name'')),
                (str ''country'', opt_prop (opt_prop data (str ''sys'')) (str ''country'')),
                (str ''temp'', opt_prop (opt_prop data (str ''main'')) (str ''temp'')),
                (str ''feels_like'',
                 opt_prop (opt_prop data (str ''main'')) (str ''feels_like'')),
                (str ''humidity'', opt_prop (opt_prop data (str ''main'')) (str ''humidity'')),
                (str ''description'',
                 opt_prop (opt_index0 (opt_prop data (str ''weather''))) (str ''description'')),
                (str ''icon'',
                 opt_prop (opt_index0 (opt_prop data (str ''weather''))) (str ''icon'')),
                (str ''raw'', data)])"
proof -
  obtain call r data result where w:
    "snd (weather E req) = [call]" "fetch E call = Inr r" "read_json r = Inr data"
    "weather_result data = Inr result" "fst (weather E req) = reply 200 result"
    using weather_status_200 [OF assms(1,3)] by blast
  have j: "is_json data"
    using assms(2) w(2,3) by blast
  show ?thesis
    using w(1-3)
    by (intro exI [of _ call] exI [of _ r] exI [of _ data])
       (simp add: w(5) json_body_reply weather_result_wire [OF j w(4)])
qed

text \<open>
  The lookup of Colombo: all seven values are present upstream, and \<open>raw\<close> is the whole
  upstream object.
\<close>

theorem weather_success_fields_witness:
  "status (fst (weather example_env example_weather_request)) = 200 \<and>
   json_body (fst (weather example_env example_weather_request)) =
     JObj [(str ''city'', JStr (str ''Colombo'')),
           (str ''country'', JStr (str ''LK'')),
           (str ''temp'', JNum 30),
           (str ''feels_like'', JNum 33),
           (str ''humidity'', JNum 70),
           (str ''description'', JStr (str ''clear sky'')),
           (str ''icon'', JStr (str ''01d'')),
           (str ''raw'',
            JObj [(str ''name'', JStr (str ''Colombo'')),
                  (str ''sys'', JObj [(str ''country'', JStr (str ''LK''))]),
                  (str ''main'', JObj [(str ''temp'', JNum 30), (str ''feels_like'', JNum 33),
                                       (str ''humidity'', JNum 70)]),
                  (str ''weather'',
                   JArr [JObj [(str ''description'', JStr (str ''clear sky'')),
                               (str ''icon'', JStr (str ''01d''))]])])]"
proof -
  have h1: "\<forall>c r. fetch example_env c = Inr r \<longrightarrow>
                  (ok r \<longleftrightarrow> 200 \<le> http_status r \<and> http_status r < 300)"
    by (auto simp: example_env_def example_fetch_response_def)
  have h2: "\<forall>c r d. fetch example_env c = Inr r \<longrightarrow> read_json r = Inr d \<longrightarrow> is_json d"
    using example_weather_data_json
    by (auto simp: example_env_def example_fetch_response_def)
  have h3: "status (fst (weather example_env example_weather_request)) = 200"
    using example_weather_answer by (auto simp: status_reply)
  obtain call r data where w:
    "fetch example_env call = Inr r" "read_json r = Inr data"
    "json_body (fst (weather example_env example_weather_request)) =
             JObj (filter (\<lambda>kv. snd kv \<noteq> JUndefined)
               [(str ''city'', opt_prop data (str ''name'')),
                (str ''country'', opt_prop (opt_prop data (str ''sys'')) (str ''country'')),
                (str ''temp'', opt_prop (opt_prop data (str ''main'')) (str ''temp'')),
                (str ''feels_like'',
                 opt_prop (opt_prop data (str ''main'')) (str ''feels_like'')),
                (str ''humidity'', opt_prop (opt_prop data (str ''main'')) (str ''humidity'')),
                (str ''description'',
                 opt_prop (opt_index0 (opt_prop data (str ''weather''))) (str ''description'')),
                (str ''icon'',
                 opt_prop (opt_index0 (opt_prop data (str ''weather''))) (str ''icon'')),
                (str ''raw'', data)])"
    using weather_success_fields [OF h1 h2 h3] by blast
  have d: "data = example_weather_data"
    using w(1,2) by (auto simp: example_env_def example_fetch_response_def)
  have u: "example_weather_data \<noteq> JUndefined"
    by (simp add: example_weather_data_def)
  have "json_body (fst (weather example_env example_weather_request)) =
     JObj [(str ''city'', JStr (str ''Colombo'')),
           (str ''country'', JStr (str ''LK'')),
           (str ''temp'', JNum 30),
           (str ''feels_like'', JNum 33),
           (str ''humidity'', JNum 70),
           (str ''description'', JStr (str ''clear sky'')),
           (str ''icon'', JStr (str ''01d'')),
           (str ''raw'', example_weather_data)]"
    unfolding w(3) d using u
    by (simp add: example_weather_data_fields opt_index0_def example_weather_keys)
  with h3 show ?thesis
    by (simp add: example_weather_data_def)
qed

subsection \<open>The title of a chat\<close>

text \<open>
  Claim C6 says that the message \<open>Explain recursion in simple terms for a beginner
  please\<close> has 44 characters and yields its first 40 characters plus ellipsis. The
  message has 55 characters.
\<close>

theorem title_example_length_counterexample:
  "\<not> (length example_message = 44 \<and>
      title (activeChat offline_browser (fst (sendMessage offline_browser example_state))) =
        take 40 example_message @ str ''...'')"
  by (simp add: example_message_length)

text \<open>
  Claim C6, amended: when a user message is sent to a chat whose title is still
  \<open>New chat\<close>, the title becomes the message trimmed and with its runs of white space
  collapsed to single spaces, cut to its first 40 characters followed by \<open>...\<close> when it is
  longer than 40 characters and unmodified when it has 40 characters or fewer; in
  particular the 55-character message \<open>Explain recursion in simple terms for a beginner
  please\<close> yields its first 40 characters plus ellipsis.
\<close>

theorem sendMessage_derives_title:
  assumes "\<not> ((trim (input st) = [] \<and> imageFile st = None) \<or> loading st)"
    and "chats st \<noteq> []"
    and "title (activeChat B st) = str ''New chat''"
  shows "title (activeChat B (fst (sendMessage B st))) =
           (if length (replace_ws_runs (trim (userText st))) > 40
            then take 40 (replace_ws_runs (trim (userText st))) @ str ''...''
            else replace_ws_runs (trim (userText st))) \<and>
         length example_message = 55 \<and>
         (userText st = example_message \<longrightarrow>
            title (activeChat B (fst (sendMessage B st))) =
              str ''Explain recursion in simple terms for a ...'')"
proof -
  have t: "title (activeChat B (fst (sendMessage B st))) = newTitle (activeChat B st) (userText st)"
    by (rule sendMessage_title [OF assms(1,2)])
  have n: "newTitle (activeChat B st) (userText st) =
           (if length (replace_ws_runs (trim (userText st))) > 40
            then take 40 (replace_ws_runs (trim (userText st))) @ str ''...''
            else replace_ws_runs (trim (userText st)))"
    using assms(3) by (simp add: newTitle_def Let_def trim_replace_ws_runs)
  have e: "title (activeChat B (fst (sendMessage B st))) =
             str ''Explain recursion in simple terms for a ...''"
    if u: "userText st = example_message"
  proof -
    have r: "replace_ws_runs (trim (userText st)) = example_message"
      by (simp only: u example_message_trim example_message_runs)
    have "newTitle (activeChat B st) (userText st) = take 40 example_message @ str ''...''"
      unfolding n r by (simp add: example_message_length)
    then show ?thesis
      by (simp only: t example_message_take)
  qed
  from t n have "title (activeChat B (fst (sendMessage B st))) =
           (if length (replace_ws_runs (trim (userText st))) > 40
            then take 40 (replace_ws_runs (trim (userText st))) @ str ''...''
            else replace_ws_runs (trim (userText st)))"
    by (simp only:)
  with e example_message_length show ?thesis
    by blast
qed

text \<open>The example message sent to the first chat of the example collection.\<close>

theorem sendMessage_derives_title_witness:
  "title (activeChat offline_browser (fst (sendMessage offline_browser example_state))) =
     str ''Explain recursion in simple terms for a ...'' \<and>
   length example_message = 55"
proof -
  have h2: "chats example_state \<noteq> []"
    by (simp add: example_state_def example_chats_def)
  have h3: "title (activeChat offline_browser example_state) = str ''New chat''"
    by (simp add: example_state_active example_chats_def)
  show ?thesis
    using sendMessage_derives_title [OF example_state_sendable h2 h3] example_state_userText
    by blast
qed

subsection \<open>A send that fails\<close>




end
